theory Spec2Isabelle
  imports Complex_Main "HOL-Library.Sublist"
begin

section \<open>Letter guessing game: data model\<close>

text \<open>
  The program is one Python class, \<open>LetterGuessingGame\<close>, over a static word table and a
  JSON score file. The embedding keeps the fields of the object in a record that every
  method takes and returns, the terminal input as the list of lines still to be read, and
  the score file, the clock and the random source as explicit arguments. Printing, screen
  clearing and sleeping do not influence any value and are left out.
\<close>

subsection \<open>Constants\<close>

definition MAX_ATTEMPTS :: int where
  "MAX_ATTEMPTS = 6"

definition ROUNDS_PER_GAME :: nat where
  "ROUNDS_PER_GAME = 10"

subsection \<open>Exceptions\<close>

text \<open>
  The exception classes that the modelled statements can raise. \<open>IOError\<close> is Python's
  alias of \<open>OSError\<close> (a missing permission, a directory in place of the file, a full
  disk). \<open>UnicodeDecodeError\<close> is what reading a text file opened with
  \<open>encoding='utf-8'\<close> raises on bytes that are not UTF-8, and \<open>UnicodeEncodeError\<close> what
  writing to such a file raises on a lone surrogate; like \<open>JSONDecodeError\<close> they are
  subclasses of \<open>ValueError\<close>, and none of the three is a subclass of another.
  \<open>RecursionError\<close> and \<open>ValueError\<close> are what \<open>json.load\<close> raises on a document
  nested too deeply and on an integer literal beyond the digit limit. \<open>EOFError\<close> is
  what \<open>input()\<close> raises when the terminal has no further line. \<open>TypeError\<close>,
  \<open>KeyError\<close>, \<open>IndexError\<close> and \<open>AttributeError\<close> come from operations on a value
  of the wrong kind.
\<close>

datatype py_error =
    JSONDecodeError | IOError | UnicodeDecodeError | UnicodeEncodeError
  | RecursionError | ValueError | EOFError
  | TypeError | KeyError | IndexError | AttributeError

subsection \<open>Strings\<close>

text \<open>
  A Python string is a sequence of Unicode code points. The literals of the program are
  ASCII and are written with \<open>ustr\<close>.
\<close>

type_synonym ustring = "nat list"

definition ustr :: "string \<Rightarrow> ustring" where
  "ustr s = map of_char s"

subsection \<open>Values read from JSON\<close>

text \<open>
  What \<open>json.load\<close> can return: \<open>None\<close>, a truth value, an integer, a float (a
  number, an infinity or a NaN), a string, a list, or a dictionary with string keys, kept
  as the list of its items in order, each key once.
\<close>

datatype pyfloat = Finite real | PosInf | NegInf | NaN

datatype json =
    JNull
  | JBool bool
  | JInt int
  | JFloat pyfloat
  | JStr ustring
  | JList "json list"
  | JDict "(ustring \<times> json) list"

subsection \<open>What the interpreter supplies\<close>

text \<open>
  \<open>str.strip\<close>, \<open>str.upper\<close> and \<open>str.isalpha\<close> follow the Unicode tables of the
  interpreter and are no code of this program: they are parameters of the model, and
  every general statement below holds whatever they are. So is \<open>sort_other\<close>, which
  stands for \<open>list.sort(key=lambda x: x["score"], reverse=True)\<close> on a list whose
  scores are not all integers: whether that raises \<open>TypeError\<close> or returns, and in
  which order, depends on the comparisons the sorting algorithm happens to make.
\<close>

record library =
  str_strip :: "ustring \<Rightarrow> ustring"
  str_upper :: "ustring \<Rightarrow> ustring"
  str_isalpha :: "ustring \<Rightarrow> bool"
  sort_other :: "json list \<Rightarrow> py_error + json list"

text \<open>
  On a string of ASCII characters (code points below 128) the three string methods
  compute what follows: white space is the tab, the line feed, the vertical tab, the form
  feed, the carriage return, the four separators 28 to 31 and the space; the letters are
  \<open>a\<close> to \<open>z\<close> and \<open>A\<close> to \<open>Z\<close>. \<open>ascii_library\<close> is used to run examples whose
  input is ASCII, never as a description of the methods on other strings.
\<close>

definition is_ascii :: "ustring \<Rightarrow> bool" where
  "is_ascii s = list_all (\<lambda>c. c < 128) s"

definition ascii_space :: "nat \<Rightarrow> bool" where
  "ascii_space c = (c \<in> set [9, 10, 11, 12, 13, 28, 29, 30, 31, 32])"

definition ascii_strip :: "ustring \<Rightarrow> ustring" where
  "ascii_strip s = rev (dropWhile ascii_space (rev (dropWhile ascii_space s)))"

definition ascii_upper :: "ustring \<Rightarrow> ustring" where
  "ascii_upper s = map (\<lambda>c. if 97 \<le> c \<and> c \<le> 122 then c - 32 else c) s"

definition ascii_isalpha :: "ustring \<Rightarrow> bool" where
  "ascii_isalpha s =
     (s \<noteq> [] \<and> list_all (\<lambda>c. (65 \<le> c \<and> c \<le> 90) \<or> (97 \<le> c \<and> c \<le> 122)) s)"

definition ascii_library :: library where
  "ascii_library = \<lparr>str_strip = ascii_strip, str_upper = ascii_upper,
                     str_isalpha = ascii_isalpha, sort_other = (\<lambda>xs. Inl TypeError)\<rparr>"

subsection \<open>Difficulty and the word table\<close>

text \<open>
  \<open>get_difficulty\<close> only ever returns one of the three keys of \<open>WORD_DATABASE\<close>, so the
  difficulty string is a three-valued datatype; \<open>difficulty_name\<close> is the string
  itself. A word entry keeps the fields \<open>word\<close> and \<open>sentence\<close>; \<open>meaning\<close> and
  \<open>ipa\<close> are Persian and phonetic display strings that no computation reads.
\<close>

datatype difficulty = Easy | Medium | Hard

definition difficulty_name :: "difficulty \<Rightarrow> ustring" where
  "difficulty_name d =
     (case d of Easy \<Rightarrow> ustr ''easy'' | Medium \<Rightarrow> ustr ''medium'' | Hard \<Rightarrow> ustr ''hard'')"

record word_data =
  word :: ustring
  sentence :: ustring

definition WORD_DATABASE :: "difficulty \<Rightarrow> word_data list" where
  "WORD_DATABASE d = (case d of
     Easy \<Rightarrow>
       [\<lparr>word = ustr ''apple'', sentence = ustr ''I eat an apple every day.''\<rparr>,
        \<lparr>word = ustr ''book'', sentence = ustr ''She is reading a book.''\<rparr>,
        \<lparr>word = ustr ''cat'', sentence = ustr ''The cat is sleeping.''\<rparr>,
        \<lparr>word = ustr ''dog'', sentence = ustr ''My dog is very friendly.''\<rparr>,
        \<lparr>word = ustr ''house'', sentence = ustr ''They live in a big house.''\<rparr>,
        \<lparr>word = ustr ''water'', sentence = ustr ''Please drink more water.''\<rparr>,
        \<lparr>word = ustr ''friend'', sentence = ustr ''He is my best friend.''\<rparr>,
        \<lparr>word = ustr ''school'', sentence = ustr ''The children go to school.''\<rparr>,
        \<lparr>word = ustr ''happy'', sentence = ustr ''She looks very happy today.''\<rparr>,
        \<lparr>word = ustr ''family'',
            sentence = ustr ''My family is very important to me.''\<rparr>]
   | Medium \<Rightarrow>
       [\<lparr>word = ustr ''beautiful'', sentence = ustr ''The sunset was beautiful.''\<rparr>,
        \<lparr>word = ustr ''important'',
            sentence = ustr ''This is an important decision.''\<rparr>,
        \<lparr>word = ustr ''knowledge'', sentence = ustr ''Knowledge is power.''\<rparr>,
        \<lparr>word = ustr ''environment'',
            sentence = ustr ''We must protect the environment.''\<rparr>,
        \<lparr>word = ustr ''successful'',
            sentence = ustr ''She became a successful doctor.''\<rparr>,
        \<lparr>word = ustr ''difficult'',
            sentence = ustr ''The exam was very difficult.''\<rparr>,
        \<lparr>word = ustr ''interesting'',
            sentence = ustr ''The book is very interesting.''\<rparr>,
        \<lparr>word = ustr ''necessary'',
            sentence = ustr ''Sleep is necessary for health.''\<rparr>,
        \<lparr>word = ustr ''experience'',
            sentence = ustr ''Traveling is a great experience.''\<rparr>,
        \<lparr>word = ustr ''government'',
          sentence = ustr ''The government announced new policies.''\<rparr>]
   | Hard \<Rightarrow>
       [\<lparr>word = ustr ''entrepreneur'',
          sentence = ustr ''The entrepreneur started a new company.''\<rparr>,
        \<lparr>word = ustr ''consciousness'',
            sentence = ustr ''Human consciousness is complex.''\<rparr>,
        \<lparr>word = ustr ''philosophical'',
          sentence = ustr ''They had a philosophical discussion.''\<rparr>,
        \<lparr>word = ustr ''revolutionary'',
            sentence = ustr ''It was a revolutionary idea.''\<rparr>,
        \<lparr>word = ustr ''extraordinary'',
            sentence = ustr ''She has extraordinary talent.''\<rparr>,
        \<lparr>word = ustr ''sophisticated'',
            sentence = ustr ''The system is very sophisticated.''\<rparr>,
        \<lparr>word = ustr ''unprecedented'',
          sentence = ustr ''This is an unprecedented situation.''\<rparr>,
        \<lparr>word = ustr ''psychological'',
          sentence = ustr ''The study has psychological implications.''\<rparr>,
        \<lparr>word = ustr ''infrastructure'',
          sentence = ustr ''The city needs better infrastructure.''\<rparr>,
        \<lparr>word = ustr ''communication'',
            sentence = ustr ''Good communication is essential.''\<rparr>])"

subsection \<open>The object's fields\<close>

text \<open>
  \<open>high_scores\<close> holds whatever \<open>load_high_scores\<close> returned, later the list that
  \<open>add_high_score\<close> rebuilds: a value of JSON shape. An entry as \<open>add_high_score\<close>
  builds it is a dictionary with the keys \<open>name\<close>, \<open>score\<close>, \<open>difficulty\<close> and
  \<open>date\<close>; \<open>score_entry\<close> is such an entry as a record and \<open>entry_json\<close> the
  dictionary it stands for.
\<close>

record score_entry =
  entry_name :: ustring
  entry_score :: int
  entry_difficulty :: difficulty
  entry_date :: ustring

definition entry_json :: "score_entry \<Rightarrow> json" where
  "entry_json e =
     JDict [(ustr ''name'', JStr (entry_name e)),
            (ustr ''score'', JInt (entry_score e)),
            (ustr ''difficulty'', JStr (difficulty_name (entry_difficulty e))),
            (ustr ''date'', JStr (entry_date e))]"

record game =
  score :: int
  round_no :: nat
  words_learned :: "ustring list"
  start_time :: "ustring option"
  total_attempts :: int
  correct_guesses :: int
  high_scores :: json

text \<open>The local variables of \<open>play_round\<close> that its loop updates.\<close>

record round_vars =
  correct_letters :: "nat set"
  wrong_letters :: "nat set"
  attempts_left :: int

section \<open>The score file\<close>

text \<open>
  What \<open>HIGH_SCORE_FILE\<close> holds decides what \<open>open\<close> and \<open>json.load\<close> do: the file
  is not there; it cannot be opened or read; or it holds a JSON document, which is
  parsed to a value of any shape; text that is not JSON; bytes that are not UTF-8; a
  document nested more deeply than the interpreter recurses; or an integer literal with
  more digits than the interpreter converts. \<open>writing\<close> says what happens when the
  file is opened with mode \<open>'w'\<close> and written: all goes well, \<open>open\<close> fails, or the
  file is opened (and so emptied) and the writing fails.
\<close>

datatype file_contents = Json json | NotJson | NotUtf8 | TooDeep | HugeInteger

datatype score_file = Missing | Unreadable | Holds file_contents

datatype write_status = WriteOk | OpenFails | WriteFails

record storage =
  high_score_file :: score_file
  writing :: write_status

text \<open>The body of the \<open>try\<close> of \<open>load_high_scores\<close>: \<open>None\<close> when it falls through.\<close>

definition load_attempt :: "storage \<Rightarrow> py_error + json option" where
  "load_attempt st = (case high_score_file st of
     Missing \<Rightarrow> Inr None
   | Unreadable \<Rightarrow> Inl IOError
   | Holds c \<Rightarrow> (case c of
        Json v \<Rightarrow> Inr (Some v)
      | NotJson \<Rightarrow> Inl JSONDecodeError
      | NotUtf8 \<Rightarrow> Inl UnicodeDecodeError
      | TooDeep \<Rightarrow> Inl RecursionError
      | HugeInteger \<Rightarrow> Inl ValueError))"

definition load_high_scores :: "storage \<Rightarrow> py_error + json" where
  "load_high_scores st = (case load_attempt st of
     Inr (Some v) \<Rightarrow> Inr v
   | Inr None \<Rightarrow> Inr (JList [])
   | Inl e \<Rightarrow> (if e = JSONDecodeError \<or> e = IOError then Inr (JList []) else Inl e))"

text \<open>\<open>__init__\<close>: the fields are set and the score list is loaded.\<close>

definition init_game :: "storage \<Rightarrow> py_error + game" where
  "init_game st = (case load_high_scores st of
     Inl e \<Rightarrow> Inl e
   | Inr hs \<Rightarrow> Inr \<lparr>score = 0, round_no = 0, words_learned = [], start_time = None,
                    total_attempts = 0, correct_guesses = 0, high_scores = hs\<rparr>)"

text \<open>
  With \<open>ensure_ascii=False\<close> the strings are written as they are, and the UTF-8 file
  refuses a lone surrogate (a code point from D800 to DFFF) with
  \<open>UnicodeEncodeError\<close>.
\<close>

definition is_surrogate :: "nat \<Rightarrow> bool" where
  "is_surrogate c = (0xD800 \<le> c \<and> c \<le> 0xDFFF)"

primrec has_surrogate :: "json \<Rightarrow> bool" where
  "has_surrogate JNull = False"
| "has_surrogate (JBool b) = False"
| "has_surrogate (JInt i) = False"
| "has_surrogate (JFloat f) = False"
| "has_surrogate (JStr s) = list_ex is_surrogate s"
| "has_surrogate (JList xs) = list_ex id (map has_surrogate xs)"
| "has_surrogate (JDict kvs) =
     list_ex (\<lambda>(k, b). list_ex is_surrogate k \<or> b) (map (map_prod id has_surrogate) kvs)"

text \<open>
  \<open>save_high_scores\<close>. The body of its \<open>try\<close> gives what was raised, if anything, and
  the file as it is left: untouched when \<open>open\<close> fails; emptied or cut short, which is
  no JSON, when the writing fails or \<open>json.dump\<close> meets a surrogate; the dumped list
  otherwise. When the writing fails the \<open>IOError\<close> of the write, or of the \<open>close\<close>
  that ends the \<open>with\<close> block, is what leaves the block. The handler swallows
  \<open>IOError\<close> and nothing else.
\<close>

definition save_attempt :: "game \<Rightarrow> storage \<Rightarrow> py_error option \<times> storage" where
  "save_attempt g st = (case writing st of
     OpenFails \<Rightarrow> (Some IOError, st)
   | WriteFails \<Rightarrow> (Some IOError, st\<lparr>high_score_file := Holds NotJson\<rparr>)
   | WriteOk \<Rightarrow>
       (if has_surrogate (high_scores g)
        then (Some UnicodeEncodeError, st\<lparr>high_score_file := Holds NotJson\<rparr>)
        else (None, st\<lparr>high_score_file := Holds (Json (high_scores g))\<rparr>)))"

definition save_high_scores :: "game \<Rightarrow> storage \<Rightarrow> py_error option \<times> storage" where
  "save_high_scores g st = (case save_attempt g st of
     (None, st') \<Rightarrow> (None, st')
   | (Some e, st') \<Rightarrow> (if e = IOError then (None, st') else (Some e, st')))"

section \<open>The high-score list\<close>

text \<open>
  \<open>x[key]\<close> with a string key: the value in a dictionary, \<open>KeyError\<close> when the key is
  missing, \<open>TypeError\<close> on any value that is no dictionary.
\<close>

fun get_item :: "json \<Rightarrow> ustring \<Rightarrow> py_error + json" where
  "get_item (JDict kvs) k = (case map_of kvs k of Some v \<Rightarrow> Inr v | None \<Rightarrow> Inl KeyError)"
| "get_item x k = Inl TypeError"

text \<open>
  The keys of the sort, \<open>x["score"]\<close> for every element from the first on; the first
  failure is what is raised.
\<close>

fun score_keys :: "json list \<Rightarrow> py_error + json list" where
  "score_keys [] = Inr []"
| "score_keys (x # xs) =
     (case get_item x (ustr ''score'') of
        Inl e \<Rightarrow> Inl e
      | Inr k \<Rightarrow> (case score_keys xs of Inl e \<Rightarrow> Inl e | Inr ks \<Rightarrow> Inr (k # ks)))"

fun is_int :: "json \<Rightarrow> bool" where
  "is_int (JInt i) = True"
| "is_int x = False"

definition int_score :: "json \<Rightarrow> int" where
  "int_score x = (case get_item x (ustr ''score'') of Inr (JInt i) \<Rightarrow> i | _ \<Rightarrow> 0)"

text \<open>
  \<open>list.sort(key=..., reverse=True)\<close> is a stable sort: entries with equal keys keep
  their order, also under \<open>reverse=True\<close>. On integer keys the result of a stable sort
  is determined by its input, so it is the stable insertion sort of the library on the
  negated key.
\<close>

definition sort_by_score :: "library \<Rightarrow> json list \<Rightarrow> py_error + json list" where
  "sort_by_score lib xs =
     (case score_keys xs of
        Inl e \<Rightarrow> Inl e
      | Inr ks \<Rightarrow>
          if list_all is_int ks then Inr (sort_key (\<lambda>x. - int_score x) xs)
          else sort_other lib xs)"

text \<open>
  \<open>add_high_score\<close>. Only a list has \<open>append\<close>. The result is the object, or what was
  raised, together with the score file as it is left.
\<close>

definition add_high_score ::
  "library \<Rightarrow> ustring \<Rightarrow> int \<Rightarrow> difficulty \<Rightarrow> ustring \<Rightarrow> game \<Rightarrow> storage
     \<Rightarrow> (py_error + game) \<times> storage" where
  "add_high_score lib name sc difficulty now g st =
     (case high_scores g of
        JList xs \<Rightarrow>
          (let appended = xs @
                 [entry_json \<lparr>entry_name = name, entry_score = sc,
                              entry_difficulty = difficulty, entry_date = now\<rparr>]
           in case sort_by_score lib appended of
                Inl e \<Rightarrow> (Inl e, st)
              | Inr sorted_scores \<Rightarrow>
                  (let g' = g\<lparr>high_scores := JList (take 10 sorted_scores)\<rparr>
                   in case save_high_scores g' st of
                        (None, st') \<Rightarrow> (Inr g', st')
                      | (Some e, st') \<Rightarrow> (Inl e, st')))
      | _ \<Rightarrow> (Inl AttributeError, st))"

text \<open>
  The condition that guards \<open>add_high_score\<close> at the end of \<open>play_game\<close>:
  \<open>self.high_scores and self.score > self.high_scores[-1]['score'] or not self.high_scores\<close>.
  \<open>truthy\<close> is the truth value of a value, \<open>last_item\<close> is \<open>x[-1]\<close>, and \<open>int_gt\<close> is
  \<open>>\<close> between an integer and a value, which only a number admits.
\<close>

fun truthy :: "json \<Rightarrow> bool" where
  "truthy JNull = False"
| "truthy (JBool b) = b"
| "truthy (JInt i) = (i \<noteq> 0)"
| "truthy (JFloat f) = (f \<noteq> Finite 0)"
| "truthy (JStr s) = (s \<noteq> [])"
| "truthy (JList xs) = (xs \<noteq> [])"
| "truthy (JDict kvs) = (kvs \<noteq> [])"

fun last_item :: "json \<Rightarrow> py_error + json" where
  "last_item (JList xs) = (if xs = [] then Inl IndexError else Inr (last xs))"
| "last_item (JStr s) = (if s = [] then Inl IndexError else Inr (JStr [last s]))"
| "last_item (JDict kvs) = Inl KeyError"
| "last_item x = Inl TypeError"

fun int_gt :: "int \<Rightarrow> json \<Rightarrow> py_error + bool" where
  "int_gt i (JInt j) = Inr (i > j)"
| "int_gt i (JBool b) = Inr (i > (if b then 1 else 0))"
| "int_gt i (JFloat f) =
     Inr (case f of Finite r \<Rightarrow> of_int i > r | PosInf \<Rightarrow> False | NegInf \<Rightarrow> True | NaN \<Rightarrow> False)"
| "int_gt i x = Inl TypeError"

definition qualifies :: "json \<Rightarrow> int \<Rightarrow> py_error + bool" where
  "qualifies hs sc =
     (if truthy hs then
        (case last_item hs of
           Inl e \<Rightarrow> Inl e
         | Inr l \<Rightarrow>
             (case get_item l (ustr ''score'') of
                Inl e \<Rightarrow> Inl e
              | Inr v \<Rightarrow>
                  (case int_gt sc v of
                     Inl e \<Rightarrow> Inl e
                   | Inr b \<Rightarrow> Inr (b \<or> \<not> truthy hs))))
      else Inr (\<not> truthy hs))"

section \<open>One round\<close>

text \<open>
  \<open>random.choice(words)\<close> takes the element at a random index below the length of the
  list. The random source is the sequence \<open>rand\<close> of raw draws, \<open>draws\<close> counts how many
  were taken, and a raw draw is reduced modulo the length.
\<close>

definition get_random_word :: "difficulty \<Rightarrow> (nat \<Rightarrow> nat) \<Rightarrow> nat \<Rightarrow> word_data \<times> nat" where
  "get_random_word difficulty rand draws =
     (let words = WORD_DATABASE difficulty
      in (words ! (rand draws mod length words), Suc draws))"

definition is_word_complete :: "ustring \<Rightarrow> nat set \<Rightarrow> bool" where
  "is_word_complete w guessed_letters = list_all (\<lambda>letter. letter \<in> guessed_letters) w"

text \<open>
  The inner \<open>while True\<close> of \<open>play_round\<close>: lines are read until one is a single letter
  that is in neither set. A guess is a string of length one; the model hands on its only
  character. The terminal input is the list of lines not yet read, and \<open>input()\<close> on an
  empty list raises \<open>EOFError\<close>.
\<close>

fun read_guess ::
  "library \<Rightarrow> nat set \<Rightarrow> nat set \<Rightarrow> ustring list \<Rightarrow> py_error + (nat \<times> ustring list)" where
  "read_guess lib correct wrong [] = Inl EOFError"
| "read_guess lib correct wrong (line # rest) =
     (let guess = str_upper lib (str_strip lib line)
      in if length guess = 1 \<and> str_isalpha lib guess then
           (if hd guess \<in> correct \<or> hd guess \<in> wrong then read_guess lib correct wrong rest
            else Inr (hd guess, rest))
         else read_guess lib correct wrong rest)"

definition base_points :: "difficulty \<Rightarrow> int" where
  "base_points difficulty = (case difficulty of Easy \<Rightarrow> 10 | Medium \<Rightarrow> 20 | Hard \<Rightarrow> 30)"

text \<open>
  The rest of the body of the outer loop, from \<open>self.total_attempts += 1\<close> on: either the
  round is won and \<open>play_round\<close> returns \<open>True\<close>, or the loop goes on.
\<close>

datatype guess_result = Won round_vars game | Continue round_vars game

definition apply_guess ::
  "difficulty \<Rightarrow> word_data \<Rightarrow> ustring \<Rightarrow> round_vars \<Rightarrow> game \<Rightarrow> nat \<Rightarrow> guess_result" where
  "apply_guess difficulty wd w v g guess =
     (let g1 = g\<lparr>total_attempts := total_attempts g + 1\<rparr>
      in if guess \<in> set w then
           (let v1 = v\<lparr>correct_letters := insert guess (correct_letters v)\<rparr>;
                g2 = g1\<lparr>correct_guesses := correct_guesses g1 + 1\<rparr>
            in if is_word_complete w (correct_letters v1) then
                 (let points = base_points difficulty;
                      bonus = attempts_left v1 * 5;
                      total_points = points + bonus
                  in Won v1 (g2\<lparr>score := score g2 + total_points,
                                words_learned := words_learned g2 @ [word wd]\<rparr>))
               else Continue v1 g2)
         else Continue (v\<lparr>wrong_letters := insert guess (wrong_letters v),
                          attempts_left := attempts_left v - 1\<rparr>) g1)"

text \<open>
  The loop \<open>while attempts_left > 0\<close>. The result carries the local variables as they
  are when the loop is left, the object and the lines not read.
\<close>

function guess_loop ::
  "library \<Rightarrow> difficulty \<Rightarrow> word_data \<Rightarrow> ustring \<Rightarrow> round_vars \<Rightarrow> game \<Rightarrow> ustring list
     \<Rightarrow> py_error + (bool \<times> round_vars \<times> game \<times> ustring list)" where
  "guess_loop lib difficulty wd w v g inp =
     (if attempts_left v > 0 then
        (case read_guess lib (correct_letters v) (wrong_letters v) inp of
           Inl e \<Rightarrow> Inl e
         | Inr (guess, rest) \<Rightarrow>
             (case apply_guess difficulty wd w v g guess of
                Won v' g' \<Rightarrow> Inr (True, v', g', rest)
              | Continue v' g' \<Rightarrow> guess_loop lib difficulty wd w v' g' rest))
      else Inr (False, v, g, inp))"
  by pat_completeness auto
termination
proof (relation "measure (\<lambda>(lib, difficulty, wd, w, v, g, inp). length inp)")
  have shorter: "length rest < length inp"
    if "read_guess lib correct wrong inp = Inr (guess, rest)"
    for lib correct wrong inp guess rest
    using that by (induction inp) (auto simp: Let_def split: if_splits)
  fix lib :: library and difficulty :: difficulty and wd :: word_data and w :: ustring
    and v v' :: round_vars and g g' :: game and inp rest :: "ustring list"
    and x :: "nat \<times> ustring list" and guess :: nat and r :: guess_result
  assume "read_guess lib (correct_letters v) (wrong_letters v) inp = Inr x"
    and "(guess, rest) = x"
  then have "length rest < length inp"
    using shorter by metis
  then show "((lib, difficulty, wd, w, v', g', rest), (lib, difficulty, wd, w, v, g, inp))
      \<in> measure (\<lambda>(lib, difficulty, wd, w, v, g, inp). length inp)"
    by simp
qed simp

declare guess_loop.simps [simp del]

definition initial_vars :: round_vars where
  "initial_vars = \<lparr>correct_letters = {}, wrong_letters = {}, attempts_left = MAX_ATTEMPTS\<rparr>"

definition play_round ::
  "library \<Rightarrow> difficulty \<Rightarrow> (nat \<Rightarrow> nat) \<Rightarrow> nat \<Rightarrow> game \<Rightarrow> ustring list
     \<Rightarrow> py_error + (bool \<times> game \<times> nat \<times> ustring list)" where
  "play_round lib difficulty rand draws g inp =
     (let (wd, draws') = get_random_word difficulty rand draws;
          w = str_upper lib (word wd)
      in case guess_loop lib difficulty wd w initial_vars g inp of
           Inl e \<Rightarrow> Inl e
         | Inr (won, v', g', rest) \<Rightarrow> Inr (won, g', draws', rest))"

section \<open>One game\<close>

fun get_difficulty :: "library \<Rightarrow> ustring list \<Rightarrow> py_error + (difficulty \<times> ustring list)" where
  "get_difficulty lib [] = Inl EOFError"
| "get_difficulty lib (line # rest) =
     (let choice = str_strip lib line
      in if choice = ustr ''1'' then Inr (Easy, rest)
         else if choice = ustr ''2'' then Inr (Medium, rest)
         else if choice = ustr ''3'' then Inr (Hard, rest)
         else get_difficulty lib rest)"

text \<open>
  \<open>for self.round in range(ROUNDS_PER_GAME)\<close>, over the list of round numbers still to
  come. Between two rounds one line is read and thrown away.
\<close>

fun rounds_loop ::
  "library \<Rightarrow> difficulty \<Rightarrow> (nat \<Rightarrow> nat) \<Rightarrow> nat list \<Rightarrow> nat \<Rightarrow> game \<Rightarrow> ustring list
     \<Rightarrow> py_error + (game \<times> nat \<times> ustring list)" where
  "rounds_loop lib difficulty rand [] draws g inp = Inr (g, draws, inp)"
| "rounds_loop lib difficulty rand (r # rs) draws g inp =
     (case play_round lib difficulty rand draws (g\<lparr>round_no := r\<rparr>) inp of
        Inl e \<Rightarrow> Inl e
      | Inr (won, g', draws', rest) \<Rightarrow>
          (if r < ROUNDS_PER_GAME - 1 then
             (case rest of
                [] \<Rightarrow> Inl EOFError
              | _ # rest' \<Rightarrow> rounds_loop lib difficulty rand rs draws' g' rest')
           else rounds_loop lib difficulty rand rs draws' g' rest))"

text \<open>
  \<open>play_game\<close>. \<open>now\<close> is the formatted time that \<open>datetime.now()\<close> gives. The last
  \<open>input()\<close> waits for the Enter key. The result is the object with the draws taken and
  the lines not read, or what was raised, together with the score file as it is left.
\<close>

definition play_game ::
  "library \<Rightarrow> ustring \<Rightarrow> (nat \<Rightarrow> nat) \<Rightarrow> nat \<Rightarrow> game \<Rightarrow> storage \<Rightarrow> ustring list
     \<Rightarrow> (py_error + (game \<times> nat \<times> ustring list)) \<times> storage" where
  "play_game lib now rand draws g st inp =
     (case get_difficulty lib inp of
        Inl e \<Rightarrow> (Inl e, st)
      | Inr (difficulty, inp1) \<Rightarrow>
          (case inp1 of
             [] \<Rightarrow> (Inl EOFError, st)
           | name_line # inp2 \<Rightarrow>
               (let player_name = str_strip lib name_line;
                    g0 = g\<lparr>score := 0, round_no := 0, words_learned := [],
                           start_time := Some now, total_attempts := 0, correct_guesses := 0\<rparr>
                in case rounds_loop lib difficulty rand [0..<ROUNDS_PER_GAME] draws g0 inp2 of
                     Inl e \<Rightarrow> (Inl e, st)
                   | Inr (g1, draws1, inp3) \<Rightarrow>
                       (case qualifies (high_scores g1) (score g1) of
                          Inl e \<Rightarrow> (Inl e, st)
                        | Inr q \<Rightarrow>
                            (case (if q
                                   then add_high_score lib player_name (score g1) difficulty
                                          now g1 st
                                   else (Inr g1, st)) of
                               (Inl e, st2) \<Rightarrow> (Inl e, st2)
                             | (Inr g2, st2) \<Rightarrow>
                                 (case inp3 of
                                    [] \<Rightarrow> (Inl EOFError, st2)
                                  | _ # inp4 \<Rightarrow> (Inr (g2, draws1, inp4), st2)))))))"

text \<open>The object right after \<open>__init__\<close> when there is no score file.\<close>

abbreviation fresh_game :: game where
  "fresh_game \<equiv> \<lparr>score = 0, round_no = 0, words_learned = [], start_time = None,
                   total_attempts = 0, correct_guesses = 0, high_scores = JList []\<rparr>"

section \<open>Reading the input as guesses\<close>

text \<open>
  Two notions for statements about a list of input lines, taken from the test that the
  inner loop of \<open>play_round\<close> makes on a line: the letter that a line stands for, if it
  is a single letter once stripped and put in upper case, and the set of the letters
  that the lines of an input stand for.
\<close>

definition letter_of_line :: "library \<Rightarrow> ustring \<Rightarrow> nat option" where
  "letter_of_line lib line =
     (let guess = str_upper lib (str_strip lib line)
      in if length guess = 1 \<and> str_isalpha lib guess then Some (hd guess) else None)"

definition guessed_letters :: "library \<Rightarrow> ustring list \<Rightarrow> nat set" where
  "guessed_letters lib inp = set (List.map_filter (letter_of_line lib) inp)"

section \<open>Properties of the high-score list\<close>

subsection \<open>Sorting, saving and loading\<close>

lemmas text_eval = ustr_def difficulty_name_def entry_json_def

lemma get_item_entry_json:
  "get_item (entry_json e) (ustr ''score'') = Inr (JInt (entry_score e))"
  by (simp add: text_eval)


lemma score_keys_entries:
  "score_keys (map entry_json hs) = Inr (map (\<lambda>e. JInt (entry_score e)) hs)"
  by (induction hs) (simp_all add: get_item_entry_json)

lemma score_keys_append:
  "score_keys (xs @ ys) =
     (case score_keys xs of
        Inl e \<Rightarrow> Inl e
      | Inr ks \<Rightarrow> (case score_keys ys of Inl e \<Rightarrow> Inl e | Inr ks' \<Rightarrow> Inr (ks @ ks')))"
  by (induction xs) (auto split: sum.splits)

lemma sort_int_scores_sorted:
  "sorted_wrt (\<lambda>a b. int_score b \<le> int_score a) (sort_key (\<lambda>x. - int_score x) xs)"
proof -
  have "sorted (map (\<lambda>x. - int_score x) (sort_key (\<lambda>x. - int_score x) xs))"
    by (rule sorted_sort_key)
  then show ?thesis
    by (simp add: sorted_map)
qed

lemma sort_int_scores_stable:
  "filter (\<lambda>x. int_score x = k) (sort_key (\<lambda>x. - int_score x) xs)
     = filter (\<lambda>x. int_score x = k) xs"
proof -
  have "filter (\<lambda>x. - int_score x = - k) (sort_key (\<lambda>x. - int_score x) xs)
      = filter (\<lambda>x. - int_score x = - k) xs"
    by (rule sort_key_stable)
  then show ?thesis
    by simp
qed

lemma filter_take_prefix: "prefix (filter P (take n xs)) (filter P xs)"
proof -
  have "filter P xs = filter P (take n xs) @ filter P (drop n xs)"
    by (metis append_take_drop_id filter_append)
  then show ?thesis
    by (simp add: prefix_def)
qed


text \<open>What \<open>save_high_scores\<close> does for each way the writing can go.\<close>

lemma save_high_scores_cases:
  "save_high_scores g st =
     (case writing st of
        OpenFails \<Rightarrow> (None, st)
      | WriteFails \<Rightarrow> (None, st\<lparr>high_score_file := Holds NotJson\<rparr>)
      | WriteOk \<Rightarrow>
          (if has_surrogate (high_scores g)
           then (Some UnicodeEncodeError, st\<lparr>high_score_file := Holds NotJson\<rparr>)
           else (None, st\<lparr>high_score_file := Holds (Json (high_scores g))\<rparr>)))"
  by (simp add: save_high_scores_def save_attempt_def split: write_status.splits)

text \<open>
  \<open>add_high_score\<close> on a list in which every entry is a dictionary with an integer
  score.
\<close>

lemma add_high_score_int_scores:
  assumes "high_scores g = JList xs"
    and "score_keys xs = Inr ks" and "list_all is_int ks"
  shows "add_high_score lib name sc d now g st =
     (let ys = take 10 (sort_key (\<lambda>x. - int_score x)
                 (xs @ [entry_json \<lparr>entry_name = name, entry_score = sc,
                                    entry_difficulty = d, entry_date = now\<rparr>]));
          g' = g\<lparr>high_scores := JList ys\<rparr>
      in case save_high_scores g' st of
           (None, st') \<Rightarrow> (Inr g', st')
         | (Some e, st') \<Rightarrow> (Inl e, st'))"
  using assms
  by (simp add: add_high_score_def sort_by_score_def score_keys_append get_item_entry_json
        Let_def)

lemma load_stored:
  "load_high_scores (st\<lparr>high_score_file := Holds (Json v)\<rparr>) = Inr v"
  by (simp add: load_high_scores_def load_attempt_def)

text \<open>What \<open>load_high_scores\<close> does for each state of the file.\<close>

lemma load_high_scores_cases:
  "load_high_scores st =
     (case high_score_file st of
        Missing \<Rightarrow> Inr (JList [])
      | Unreadable \<Rightarrow> Inr (JList [])
      | Holds c \<Rightarrow> (case c of
           Json v \<Rightarrow> Inr v
         | NotJson \<Rightarrow> Inr (JList [])
         | NotUtf8 \<Rightarrow> Inl UnicodeDecodeError
         | TooDeep \<Rightarrow> Inl RecursionError
         | HugeInteger \<Rightarrow> Inl ValueError))"
  by (simp add: load_high_scores_def load_attempt_def
           split: score_file.splits file_contents.splits)

lemma load_high_scores_empty:
  "high_score_file st = Missing \<or> high_score_file st = Unreadable
     \<or> high_score_file st = Holds NotJson \<Longrightarrow> load_high_scores st = Inr (JList [])"
  by (auto simp: load_high_scores_def load_attempt_def)

lemma qualifies_entries:
  "qualifies (JList (map entry_json hs)) sc = Inr (hs = [] \<or> entry_score (last hs) < sc)"
  by (cases "hs = []") (simp_all add: qualifies_def last_map get_item_entry_json)

lemmas ledger_eval =
  add_high_score_def sort_by_score_def save_high_scores_def save_attempt_def
  load_high_scores_def load_attempt_def qualifies_def int_score_def is_surrogate_def
  text_eval Let_def


subsection \<open>Qualification\<close>

text \<open>
  C1, as the specification states it, promises a place to every score while the list has
  fewer than ten entries. The condition in \<open>play_game\<close> never looks at the length: a list
  of one entry with score 50 turns a score of 10 away.
\<close>

theorem qualifies_counterexample:
  "length [\<lparr>entry_name = ustr ''Ann'', entry_score = 50, entry_difficulty = Easy,
             entry_date = ustr ''2024-01-01 10:00''\<rparr>] < 10
   \<and> qualifies (JList (map entry_json
        [\<lparr>entry_name = ustr ''Ann'', entry_score = 50, entry_difficulty = Easy,
           entry_date = ustr ''2024-01-01 10:00''\<rparr>])) 10 = Inr False"
  by (simp add: ledger_eval)

text \<open>
  C1 (amended): the qualification check is true for the empty list and every score, and
  for a list of entries that is not empty exactly when the score is strictly greater
  than the score of the last entry, the lowest-ranked one; so it is for a full list of
  ten entries. The same holds of any list whose last element is a dictionary with an
  integer score.
\<close>

theorem qualifies_last:
  "qualifies (JList (map entry_json hs)) sc = Inr (hs = [] \<or> entry_score (last hs) < sc)
   \<and> (length hs = 10 \<longrightarrow>
        qualifies (JList (map entry_json hs)) sc = Inr (entry_score (last hs) < sc))
   \<and> qualifies (JList []) sc = Inr True
   \<and> (xs \<noteq> [] \<and> get_item (last xs) (ustr ''score'') = Inr (JInt s) \<longrightarrow>
        qualifies (JList xs) sc = Inr (s < sc))"
  by (auto simp: qualifies_entries) (simp_all add: qualifies_def)

text \<open>A full list whose lowest score is 100: a score of 100 stays out, 101 gets in.\<close>

theorem qualifies_last_witness:
  "length (map (\<lambda>n. \<lparr>entry_name = ustr ''Ann'', entry_score = n,
      entry_difficulty = Easy,
                       entry_date = ustr ''2024-01-01 10:00''\<rparr>)
             [1000, 900, 800, 700, 600, 500, 400, 300, 200, 100]) = 10
   \<and> qualifies (JList (map entry_json
        (map (\<lambda>n. \<lparr>entry_name = ustr ''Ann'', entry_score = n,
            entry_difficulty = Easy,
                    entry_date = ustr ''2024-01-01 10:00''\<rparr>)
             [1000, 900, 800, 700, 600, 500, 400, 300, 200, 100]))) 100 = Inr False
   \<and> qualifies (JList (map entry_json
        (map (\<lambda>n. \<lparr>entry_name = ustr ''Ann'', entry_score = n,
            entry_difficulty = Easy,
                    entry_date = ustr ''2024-01-01 10:00''\<rparr>)
             [1000, 900, 800, 700, 600, 500, 400, 300, 200, 100]))) 101 = Inr True"
  using qualifies_last [where hs = "map (\<lambda>n. \<lparr>entry_name = ustr ''Ann'',
      entry_score = n,
                       entry_difficulty = Easy, entry_date = ustr ''2024-01-01 10:00''\<rparr>)
             [1000, 900, 800, 700, 600, 500, 400, 300, 200, 100]" and sc = 100
           and xs = "[JNull]" and s = 0]
        qualifies_last [where hs = "map (\<lambda>n. \<lparr>entry_name = ustr ''Ann'',
            entry_score = n,
                       entry_difficulty = Easy, entry_date = ustr ''2024-01-01 10:00''\<rparr>)
             [1000, 900, 800, 700, 600, 500, 400, 300, 200, 100]" and sc = 101
           and xs = "[JNull]" and s = 0]
  by simp

subsection \<open>Insertion\<close>

text \<open>
  C3, as the specification states it, has every insertion saved. When the score file
  cannot be opened for writing, \<open>save_high_scores\<close> swallows the \<open>IOError\<close>:
  \<open>add_high_score\<close> returns with the new list in the object, and the file, here a
  missing one, still reads as the empty list.
\<close>

theorem add_high_score_unsaved:
  "add_high_score ascii_library (ustr ''Cy'') 70 Easy (ustr ''2024-01-01 10:00'')
      (fresh_game\<lparr>score := 70, round_no := 9, high_scores := JList (map entry_json
         [\<lparr>entry_name = ustr ''Al'', entry_score = 50, entry_difficulty = Easy,
            entry_date = ustr ''2023-01-01 10:00''\<rparr>])\<rparr>)
      \<lparr>high_score_file = Missing, writing = OpenFails\<rparr>
    = (Inr (fresh_game\<lparr>score := 70, round_no := 9, high_scores := JList (map entry_json
         [\<lparr>entry_name = ustr ''Cy'', entry_score = 70, entry_difficulty = Easy,
            entry_date = ustr ''2024-01-01 10:00''\<rparr>,
          \<lparr>entry_name = ustr ''Al'', entry_score = 50, entry_difficulty = Easy,
            entry_date = ustr ''2023-01-01 10:00''\<rparr>])\<rparr>),
       \<lparr>high_score_file = Missing, writing = OpenFails\<rparr>)
   \<and> load_high_scores \<lparr>high_score_file = Missing, writing = OpenFails\<rparr> = Inr (JList [])"
  by (simp add: ledger_eval)

text \<open>
  A name with a lone surrogate, as \<open>input()\<close> gives it for a byte that the terminal
  encoding does not know: \<open>json.dump\<close> raises \<open>UnicodeEncodeError\<close>, the handler
  does not catch it, and the file is left cut short.
\<close>

lemma add_high_score_surrogate:
  "add_high_score ascii_library [0xDC80] 70 Easy (ustr ''2024-01-01 10:00'') fresh_game
      \<lparr>high_score_file = Missing, writing = WriteOk\<rparr>
    = (Inl UnicodeEncodeError, \<lparr>high_score_file = Holds NotJson, writing = WriteOk\<rparr>)"
  by (simp add: ledger_eval)

text \<open>
  C3 (amended): for a list whose entries all carry an integer score and every new entry,
  whenever \<open>add_high_score\<close> returns, the list of the object has at most ten entries
  (one more than before, up to ten), is sorted by score from high to low, the entries
  of any one score are in order the first of the entries of that score in the old list
  followed by the new entry (ties keep their insertion order), and every entry left
  out has a score no greater than every entry kept. When the file can be opened and
  written and no string of the list holds a lone surrogate, \<open>add_high_score\<close> returns
  and the file holds exactly the new list, which \<open>load_high_scores\<close> reads back. When
  opening or writing fails it returns as well, and the file is as it was or cut short.
\<close>

theorem add_high_score_ledger:
  assumes list: "high_scores g = JList xs"
    and keys: "score_keys xs = Inr ks" and ints: "list_all is_int ks"
  shows "(add_high_score lib name sc d now g st = (Inr g', st') \<longrightarrow>
      (\<exists>ys. high_scores g' = JList ys
         \<and> length ys = min 10 (Suc (length xs))
         \<and> sorted_wrt (\<lambda>a b. int_score b \<le> int_score a) ys
         \<and> (\<forall>k. prefix (filter (\<lambda>x. int_score x = k) ys)
               (filter (\<lambda>x. int_score x = k)
                  (xs @ [entry_json \<lparr>entry_name = name, entry_score = sc,
                                     entry_difficulty = d, entry_date = now\<rparr>])))
         \<and> (\<forall>x \<in> set (xs @ [entry_json \<lparr>entry_name = name, entry_score = sc,
                                          entry_difficulty = d, entry_date = now\<rparr>]).
               x \<notin> set ys \<longrightarrow> (\<forall>y \<in> set ys. int_score x \<le> int_score y))))
   \<and> (writing st = WriteOk
        \<and> \<not> has_surrogate (JList (xs @ [entry_json \<lparr>entry_name = name, entry_score = sc,
                                          entry_difficulty = d, entry_date = now\<rparr>])) \<longrightarrow>
      (\<exists>g2 st2. add_high_score lib name sc d now g st = (Inr g2, st2)
         \<and> high_score_file st2 = Holds (Json (high_scores g2))
         \<and> load_high_scores st2 = Inr (high_scores g2)))
   \<and> (writing st = OpenFails \<longrightarrow>
      (\<exists>g2. add_high_score lib name sc d now g st = (Inr g2, st)))
   \<and> (writing st = WriteFails \<longrightarrow>
      (\<exists>g2. add_high_score lib name sc d now g st
               = (Inr g2, st\<lparr>high_score_file := Holds NotJson\<rparr>)))"
proof -
  let ?new = "entry_json \<lparr>entry_name = name, entry_score = sc, entry_difficulty = d,
                          entry_date = now\<rparr>"
  let ?sorted = "sort_key (\<lambda>x. - int_score x) (xs @ [?new])"
  let ?ys = "take 10 ?sorted"
  let ?g = "g\<lparr>high_scores := JList ?ys\<rparr>"
  have add: "add_high_score lib name sc d now g st =
      (case save_high_scores ?g st of
         (None, st') \<Rightarrow> (Inr ?g, st')
       | (Some e, st') \<Rightarrow> (Inl e, st'))"
    using add_high_score_int_scores [OF list keys ints, of lib name sc d now st]
    by (simp add: Let_def)
  have len: "length ?ys = min 10 (Suc (length xs))"
    by simp
  have srt_all: "sorted_wrt (\<lambda>a b. int_score b \<le> int_score a) ?sorted"
    by (rule sort_int_scores_sorted)
  then have srt: "sorted_wrt (\<lambda>a b. int_score b \<le> int_score a) ?ys"
    by (rule sorted_wrt_take)
  have stable: "prefix (filter (\<lambda>x. int_score x = k) ?ys)
                  (filter (\<lambda>x. int_score x = k) (xs @ [?new]))" for k
    using filter_take_prefix [of "\<lambda>x. int_score x = k" 10 ?sorted]
    by (simp only: sort_int_scores_stable)
  have dropped: "int_score x \<le> int_score y"
    if "x \<in> set (xs @ [?new])" and "x \<notin> set ?ys" and "y \<in> set ?ys" for x y
  proof -
    from that(1) have "x \<in> set ?sorted"
      by simp
    then have "x \<in> set (take 10 ?sorted) \<union> set (drop 10 ?sorted)"
      by (metis append_take_drop_id set_append)
    with that(2) have x: "x \<in> set (drop 10 ?sorted)"
      by blast
    from srt_all have "sorted_wrt (\<lambda>a b. int_score b \<le> int_score a)
        (take 10 ?sorted @ drop 10 ?sorted)"
      by simp
    with x that(3) show ?thesis
      unfolding sorted_wrt_append by blast
  qed
  have a: "add_high_score lib name sc d now g st = (Inr g', st') \<longrightarrow>
      (\<exists>ys. high_scores g' = JList ys
         \<and> length ys = min 10 (Suc (length xs))
         \<and> sorted_wrt (\<lambda>a b. int_score b \<le> int_score a) ys
         \<and> (\<forall>k. prefix (filter (\<lambda>x. int_score x = k) ys)
               (filter (\<lambda>x. int_score x = k) (xs @ [?new])))
         \<and> (\<forall>x \<in> set (xs @ [?new]).
               x \<notin> set ys \<longrightarrow> (\<forall>y \<in> set ys. int_score x \<le> int_score y)))"
  proof
    assume "add_high_score lib name sc d now g st = (Inr g', st')"
    with add have "g' = ?g"
      by (auto split: prod.splits option.splits)
    then have "high_scores g' = JList ?ys"
      by simp
    with len srt stable dropped show "\<exists>ys. high_scores g' = JList ys
         \<and> length ys = min 10 (Suc (length xs))
         \<and> sorted_wrt (\<lambda>a b. int_score b \<le> int_score a) ys
         \<and> (\<forall>k. prefix (filter (\<lambda>x. int_score x = k) ys)
               (filter (\<lambda>x. int_score x = k) (xs @ [?new])))
         \<and> (\<forall>x \<in> set (xs @ [?new]).
               x \<notin> set ys \<longrightarrow> (\<forall>y \<in> set ys. int_score x \<le> int_score y))"
      by blast
  qed
  have clean: "\<not> has_surrogate (JList ?ys)" if "\<not> has_surrogate (JList (xs @ [?new]))"
  proof -
    have "set ?ys \<subseteq> set (xs @ [?new])"
      using set_take_subset [of 10 ?sorted] by simp
    with that show ?thesis
      by (auto simp: list_ex_iff)
  qed
  have b: "writing st = WriteOk \<and> \<not> has_surrogate (JList (xs @ [?new])) \<longrightarrow>
      (\<exists>g2 st2. add_high_score lib name sc d now g st = (Inr g2, st2)
         \<and> high_score_file st2 = Holds (Json (high_scores g2))
         \<and> load_high_scores st2 = Inr (high_scores g2))"
    using add clean by (auto simp: save_high_scores_cases load_stored)
  have c: "writing st = OpenFails \<longrightarrow>
      (\<exists>g2. add_high_score lib name sc d now g st = (Inr g2, st))"
    using add by (simp add: save_high_scores_cases)
  have e: "writing st = WriteFails \<longrightarrow>
      (\<exists>g2. add_high_score lib name sc d now g st
               = (Inr g2, st\<lparr>high_score_file := Holds NotJson\<rparr>))"
    using add by (simp add: save_high_scores_cases)
  from a b c e show ?thesis
    by blast
qed

text \<open>
  A third entry with the score of the first one goes behind it, and the file holds the
  three entries.
\<close>

theorem add_high_score_ledger_witness:
  "score_keys (map entry_json
      [\<lparr>entry_name = ustr ''Al'', entry_score = 50, entry_difficulty = Easy,
         entry_date = ustr ''2023-01-01 10:00''\<rparr>,
       \<lparr>entry_name = ustr ''Bo'', entry_score = 70, entry_difficulty = Hard,
         entry_date = ustr ''2023-01-02 10:00''\<rparr>]) = Inr [JInt 50, JInt 70]
   \<and> list_all is_int [JInt 50, JInt 70]
   \<and> \<not> has_surrogate (JList (map entry_json
      [\<lparr>entry_name = ustr ''Al'', entry_score = 50, entry_difficulty = Easy,
         entry_date = ustr ''2023-01-01 10:00''\<rparr>,
       \<lparr>entry_name = ustr ''Bo'', entry_score = 70, entry_difficulty = Hard,
         entry_date = ustr ''2023-01-02 10:00''\<rparr>,
       \<lparr>entry_name = ustr ''Cy'', entry_score = 50, entry_difficulty = Easy,
         entry_date = ustr ''2024-01-01 10:00''\<rparr>]))
   \<and> add_high_score ascii_library (ustr ''Cy'') 50 Easy (ustr ''2024-01-01 10:00'')
        (fresh_game\<lparr>score := 50, round_no := 9, high_scores := JList (map entry_json
           [\<lparr>entry_name = ustr ''Al'', entry_score = 50, entry_difficulty = Easy,
              entry_date = ustr ''2023-01-01 10:00''\<rparr>,
            \<lparr>entry_name = ustr ''Bo'', entry_score = 70, entry_difficulty = Hard,
              entry_date = ustr ''2023-01-02 10:00''\<rparr>])\<rparr>)
        \<lparr>high_score_file = Missing, writing = WriteOk\<rparr>
     = (Inr (fresh_game\<lparr>score := 50, round_no := 9, high_scores := JList (map entry_json
           [\<lparr>entry_name = ustr ''Bo'', entry_score = 70, entry_difficulty = Hard,
              entry_date = ustr ''2023-01-02 10:00''\<rparr>,
            \<lparr>entry_name = ustr ''Al'', entry_score = 50, entry_difficulty = Easy,
              entry_date = ustr ''2023-01-01 10:00''\<rparr>,
            \<lparr>entry_name = ustr ''Cy'', entry_score = 50, entry_difficulty = Easy,
              entry_date = ustr ''2024-01-01 10:00''\<rparr>])\<rparr>),
        \<lparr>high_score_file = Holds (Json (JList (map entry_json
           [\<lparr>entry_name = ustr ''Bo'', entry_score = 70, entry_difficulty = Hard,
              entry_date = ustr ''2023-01-02 10:00''\<rparr>,
            \<lparr>entry_name = ustr ''Al'', entry_score = 50, entry_difficulty = Easy,
              entry_date = ustr ''2023-01-01 10:00''\<rparr>,
            \<lparr>entry_name = ustr ''Cy'', entry_score = 50, entry_difficulty = Easy,
              entry_date = ustr ''2024-01-01 10:00''\<rparr>]))), writing = WriteOk\<rparr>)"
proof -
  let ?old = "map entry_json
      [\<lparr>entry_name = ustr ''Al'', entry_score = 50, entry_difficulty = Easy,
         entry_date = ustr ''2023-01-01 10:00''\<rparr>,
       \<lparr>entry_name = ustr ''Bo'', entry_score = 70, entry_difficulty = Hard,
         entry_date = ustr ''2023-01-02 10:00''\<rparr>]"
  let ?g = "fresh_game\<lparr>score := 50, round_no := 9, high_scores := JList ?old\<rparr>"
  let ?st = "\<lparr>high_score_file = Missing, writing = WriteOk\<rparr>"
  have list: "high_scores ?g = JList ?old"
    by simp
  have keys: "score_keys ?old = Inr [JInt 50, JInt 70]"
    by (simp add: text_eval)
  have ints: "list_all is_int [JInt 50, JInt 70]"
    by simp
  have clean: "\<not> has_surrogate (JList (map entry_json
      [\<lparr>entry_name = ustr ''Al'', entry_score = 50, entry_difficulty = Easy,
         entry_date = ustr ''2023-01-01 10:00''\<rparr>,
       \<lparr>entry_name = ustr ''Bo'', entry_score = 70, entry_difficulty = Hard,
         entry_date = ustr ''2023-01-02 10:00''\<rparr>,
       \<lparr>entry_name = ustr ''Cy'', entry_score = 50, entry_difficulty = Easy,
         entry_date = ustr ''2024-01-01 10:00''\<rparr>]))"
    by (simp add: ledger_eval)
  have run: "add_high_score ascii_library (ustr ''Cy'') 50 Easy (ustr ''2024-01-01 10:00'')
        ?g ?st
     = (Inr (fresh_game\<lparr>score := 50, round_no := 9, high_scores := JList (map entry_json
           [\<lparr>entry_name = ustr ''Bo'', entry_score = 70, entry_difficulty = Hard,
              entry_date = ustr ''2023-01-02 10:00''\<rparr>,
            \<lparr>entry_name = ustr ''Al'', entry_score = 50, entry_difficulty = Easy,
              entry_date = ustr ''2023-01-01 10:00''\<rparr>,
            \<lparr>entry_name = ustr ''Cy'', entry_score = 50, entry_difficulty = Easy,
              entry_date = ustr ''2024-01-01 10:00''\<rparr>])\<rparr>),
        \<lparr>high_score_file = Holds (Json (JList (map entry_json
           [\<lparr>entry_name = ustr ''Bo'', entry_score = 70, entry_difficulty = Hard,
              entry_date = ustr ''2023-01-02 10:00''\<rparr>,
            \<lparr>entry_name = ustr ''Al'', entry_score = 50, entry_difficulty = Easy,
              entry_date = ustr ''2023-01-01 10:00''\<rparr>,
            \<lparr>entry_name = ustr ''Cy'', entry_score = 50, entry_difficulty = Easy,
              entry_date = ustr ''2024-01-01 10:00''\<rparr>]))), writing = WriteOk\<rparr>)"
    by (simp add: ledger_eval)
  from add_high_score_ledger [OF list keys ints, THEN conjunct1, rule_format, OF run]
  have "\<exists>ys. JList (map entry_json
           [\<lparr>entry_name = ustr ''Bo'', entry_score = 70, entry_difficulty = Hard,
              entry_date = ustr ''2023-01-02 10:00''\<rparr>,
            \<lparr>entry_name = ustr ''Al'', entry_score = 50, entry_difficulty = Easy,
              entry_date = ustr ''2023-01-01 10:00''\<rparr>,
            \<lparr>entry_name = ustr ''Cy'', entry_score = 50, entry_difficulty = Easy,
              entry_date = ustr ''2024-01-01 10:00''\<rparr>]) = JList ys \<and> length ys = 3"
    by auto
  with keys ints clean run show ?thesis
    by simp
qed

subsection \<open>Loading\<close>

text \<open>
  C9: \<open>load_high_scores\<close> is to give the empty list for a file that is missing or
  damaged and never to raise. For a file whose bytes are not UTF-8 the read inside
  \<open>json.load\<close> raises \<open>UnicodeDecodeError\<close>, which the handler for
  \<open>(json.JSONDecodeError, IOError)\<close> does not catch: it leaves \<open>load_high_scores\<close> and
  the constructor of the game.
\<close>

theorem load_high_scores_not_utf8:
  "load_high_scores \<lparr>high_score_file = Holds NotUtf8, writing = WriteOk\<rparr>
     = Inl UnicodeDecodeError
   \<and> init_game \<lparr>high_score_file = Holds NotUtf8, writing = WriteOk\<rparr>
       = Inl UnicodeDecodeError"
  by (simp add: init_game_def load_high_scores_def load_attempt_def)



section \<open>Properties of one round\<close>

subsection \<open>Reading a guess and applying it\<close>

lemma read_guess_Inl: "read_guess lib c w inp = Inl e \<Longrightarrow> e = EOFError"
  by (induction inp) (auto simp: Let_def split: if_splits)

lemma read_guess_new:
  "read_guess lib c w inp = Inr (x, rest) \<Longrightarrow> x \<notin> c \<and> x \<notin> w \<and> length rest < length inp"
  by (induction inp) (auto simp: Let_def split: if_splits)

lemma apply_guess_Won:
  "apply_guess d wd w v g x = Won v' g' \<Longrightarrow>
     x \<in> set w \<and> v' = v\<lparr>correct_letters := insert x (correct_letters v)\<rparr>
     \<and> is_word_complete w (insert x (correct_letters v))
     \<and> g' = g\<lparr>total_attempts := total_attempts g + 1,
              correct_guesses := correct_guesses g + 1,
              score := score g + (base_points d + attempts_left v * 5),
              words_learned := words_learned g @ [word wd]\<rparr>"
  by (auto simp: apply_guess_def Let_def split: if_splits)

lemma apply_guess_Continue:
  "apply_guess d wd w v g x = Continue v' g' \<Longrightarrow>
     (x \<in> set w \<and> v' = v\<lparr>correct_letters := insert x (correct_letters v)\<rparr>
        \<and> \<not> is_word_complete w (insert x (correct_letters v))
        \<and> g' = g\<lparr>total_attempts := total_attempts g + 1,
                 correct_guesses := correct_guesses g + 1\<rparr>)
     \<or> (x \<notin> set w \<and> v' = v\<lparr>wrong_letters := insert x (wrong_letters v),
                              attempts_left := attempts_left v - 1\<rparr>
        \<and> g' = g\<lparr>total_attempts := total_attempts g + 1\<rparr>)"
  by (auto simp: apply_guess_def Let_def split: if_splits)

lemma guess_loop_run [consumes 1, case_names stop win step]:
  assumes run: "guess_loop lib d wd w v g inp = Inr (won, v', g', rest)"
    and stop: "\<And>v g inp. \<not> attempts_left v > 0 \<Longrightarrow> Q v g inp False v g inp"
    and win: "\<And>v g inp x r v1 g1. attempts_left v > 0 \<Longrightarrow>
        read_guess lib (correct_letters v) (wrong_letters v) inp = Inr (x, r) \<Longrightarrow>
        apply_guess d wd w v g x = Won v1 g1 \<Longrightarrow> Q v g inp True v1 g1 r"
    and step: "\<And>v g inp x r v1 g1 won v' g' rest. attempts_left v > 0 \<Longrightarrow>
        read_guess lib (correct_letters v) (wrong_letters v) inp = Inr (x, r) \<Longrightarrow>
        apply_guess d wd w v g x = Continue v1 g1 \<Longrightarrow>
        guess_loop lib d wd w v1 g1 r = Inr (won, v', g', rest) \<Longrightarrow>
        Q v1 g1 r won v' g' rest \<Longrightarrow> Q v g inp won v' g' rest"
  shows "Q v g inp won v' g' rest"
  using run win step
proof (induction lib d wd w v g inp rule: guess_loop.induct)
  case (1 lib d wd w v g inp)
  note run = "1.prems"(1) and win = "1.prems"(2) and step = "1.prems"(3)
  show ?case
  proof (cases "attempts_left v > 0")
    case False
    with run stop show ?thesis
      by (simp add: guess_loop.simps)
  next
    case True
    show ?thesis
    proof (cases "read_guess lib (correct_letters v) (wrong_letters v) inp")
      case (Inl e)
      with True run show ?thesis
        by (simp add: guess_loop.simps)
    next
      case (Inr p)
      obtain x r where p: "p = (x, r)"
        by (cases p)
      show ?thesis
      proof (cases "apply_guess d wd w v g x")
        case (Won v1 g1)
        with True Inr p run have "won" "v' = v1" "g' = g1" "rest = r"
          by (simp_all add: guess_loop.simps)
        with win [OF True Inr [unfolded p] Won] show ?thesis
          by simp
      next
        case (Continue v1 g1)
        with True Inr p run have run': "guess_loop lib d wd w v1 g1 r = Inr (won, v', g', rest)"
          by (simp add: guess_loop.simps)
        have "Q v1 g1 r won v' g' rest"
          using "1.IH" [OF True Inr p [symmetric] Continue run' win step] .
        with step [OF True Inr [unfolded p] Continue run'] show ?thesis
          by simp
      qed
    qed
  qed
qed


lemma read_guess_Cons:
  "read_guess lib c w (line # rest) =
     (case letter_of_line lib line of
        None \<Rightarrow> read_guess lib c w rest
      | Some x \<Rightarrow> if x \<in> c \<or> x \<in> w then read_guess lib c w rest else Inr (x, rest))"
  by (simp add: letter_of_line_def Let_def)

lemma guessed_letters_Nil: "guessed_letters lib [] = {}"
  by (simp add: guessed_letters_def List.map_filter_simps)

lemma guessed_letters_Cons:
  "guessed_letters lib (line # rest) =
     (case letter_of_line lib line of
        None \<Rightarrow> guessed_letters lib rest
      | Some x \<Rightarrow> insert x (guessed_letters lib rest))"
  by (simp add: guessed_letters_def List.map_filter_simps split: option.splits)

lemma finite_guessed_letters: "finite (guessed_letters lib inp)"
  by (simp add: guessed_letters_def)

lemma guessed_letters_append:
  "guessed_letters lib (p @ q) = guessed_letters lib p \<union> guessed_letters lib q"
  by (induction p) (auto simp: guessed_letters_Nil guessed_letters_Cons split: option.splits)

lemma read_guess_Inl_letters:
  "read_guess lib c w inp = Inl e \<Longrightarrow> guessed_letters lib inp \<subseteq> c \<union> w"
proof (induction inp)
  case Nil
  show ?case by (simp add: guessed_letters_Nil)
next
  case (Cons line rest)
  then show ?case
    by (auto simp: read_guess_Cons guessed_letters_Cons simp del: read_guess.simps
             split: option.splits if_splits)
qed

lemma read_guess_Inr_letters:
  "read_guess lib c w inp = Inr (x, r) \<Longrightarrow>
     x \<in> guessed_letters lib inp \<and> guessed_letters lib r \<subseteq> guessed_letters lib inp
     \<and> guessed_letters lib inp \<subseteq> c \<union> w \<union> insert x (guessed_letters lib r)"
proof (induction inp)
  case Nil
  then show ?case by simp
next
  case (Cons line rest)
  then show ?case
    by (auto simp: read_guess_Cons guessed_letters_Cons simp del: read_guess.simps
             split: option.splits if_splits)
qed

lemma read_guess_append:
  "read_guess lib c w p = Inr (x, r) \<Longrightarrow> read_guess lib c w (p @ q) = Inr (x, r @ q)"
proof (induction p)
  case Nil
  then show ?case by simp
next
  case (Cons line rest)
  then show ?case
    by (auto simp: read_guess_Cons simp del: read_guess.simps
             split: option.splits if_splits)
qed

lemma is_word_complete_subset: "is_word_complete w s = (set w \<subseteq> s)"
  by (auto simp: is_word_complete_def list_all_iff)

lemma guess_loop_attempts:
  assumes "guess_loop lib d wd w v g inp = Inr (won, v', g', rest)"
  shows "0 \<le> attempts_left v \<and> attempts_left v \<le> MAX_ATTEMPTS \<longrightarrow>
         0 \<le> attempts_left v' \<and> attempts_left v' \<le> MAX_ATTEMPTS
         \<and> (\<not> won \<longrightarrow> attempts_left v' = 0)"
  using assms
proof (induction rule: guess_loop_run)
  case (stop v g inp)
  then show ?case by auto
next
  case (win v g inp x r v1 g1)
  then show ?case by (auto dest: apply_guess_Won)
next
  case (step v g inp x r v1 g1 won v' g' rest)
  then show ?case by (auto dest!: apply_guess_Continue)
qed

lemma guess_loop_wrong_count:
  assumes "guess_loop lib d wd w v g inp = Inr (won, v', g', rest)"
  shows "finite (wrong_letters v) \<longrightarrow>
         finite (wrong_letters v')
         \<and> attempts_left v' + int (card (wrong_letters v'))
             = attempts_left v + int (card (wrong_letters v))"
  using assms
proof (induction rule: guess_loop_run)
  case (stop v g inp)
  then show ?case by simp
next
  case (win v g inp x r v1 g1)
  then show ?case by (auto dest: apply_guess_Won)
next
  case (step v g inp x r v1 g1 won v' g' rest)
  from step(2) have "x \<notin> wrong_letters v"
    by (simp add: read_guess_new)
  with step(3,5) show ?case
    by (auto dest!: apply_guess_Continue)
qed

lemma guess_loop_score:
  assumes "guess_loop lib d wd w v g inp = Inr (won, v', g', rest)"
  shows "(won \<longrightarrow> score g' = score g + (base_points d + attempts_left v' * 5)
                   \<and> words_learned g' = words_learned g @ [word wd]
                   \<and> is_word_complete w (correct_letters v')
                   \<and> correct_letters v' \<noteq> {})
       \<and> (\<not> won \<longrightarrow> score g' = score g \<and> words_learned g' = words_learned g)"
  using assms
proof (induction rule: guess_loop_run)
  case (stop v g inp)
  then show ?case by simp
next
  case (win v g inp x r v1 g1)
  then show ?case by (auto dest: apply_guess_Won)
next
  case (step v g inp x r v1 g1 won v' g' rest)
  then show ?case by (auto dest!: apply_guess_Continue)
qed

lemma guess_loop_frame:
  assumes "guess_loop lib d wd w v g inp = Inr (won, v', g', rest)"
  shows "high_scores g' = high_scores g \<and> round_no g' = round_no g
       \<and> start_time g' = start_time g"
  using assms
proof (induction rule: guess_loop_run)
  case (stop v g inp)
  then show ?case by simp
next
  case (win v g inp x r v1 g1)
  then show ?case by (auto dest: apply_guess_Won)
next
  case (step v g inp x r v1 g1 won v' g' rest)
  then show ?case by (auto dest!: apply_guess_Continue)
qed

lemma guess_loop_stats:
  assumes "guess_loop lib d wd w v g inp = Inr (won, v', g', rest)"
  shows "finite (correct_letters v) \<and> finite (wrong_letters v) \<longrightarrow>
         finite (correct_letters v') \<and> finite (wrong_letters v')
         \<and> total_attempts g' + int (card (correct_letters v)) + int (card (wrong_letters v))
             = total_attempts g + int (card (correct_letters v'))
                 + int (card (wrong_letters v'))
         \<and> correct_guesses g' + int (card (correct_letters v))
             = correct_guesses g + int (card (correct_letters v'))"
  using assms
proof (induction rule: guess_loop_run)
  case (stop v g inp)
  then show ?case by simp
next
  case (win v g inp x r v1 g1)
  from win(2) have "x \<notin> correct_letters v"
    by (simp add: read_guess_new)
  with win(3) show ?case
    by (auto dest: apply_guess_Won)
next
  case (step v g inp x r v1 g1 won v' g' rest)
  from step(2) have "x \<notin> correct_letters v" "x \<notin> wrong_letters v"
    by (simp_all add: read_guess_new)
  with step(3,5) show ?case
    by (auto dest!: apply_guess_Continue)
qed

lemma guess_loop_append:
  assumes "guess_loop lib d wd w v g p = Inr (won, v', g', rest)"
  shows "won \<longrightarrow> guess_loop lib d wd w v g (p @ q) = Inr (True, v', g', rest @ q)"
  using assms
proof (induction rule: guess_loop_run)
  case (stop v g inp)
  then show ?case by simp
next
  case (win v g inp x r v1 g1)
  then show ?case
    by (simp add: guess_loop.simps [of _ _ _ _ _ _ "inp @ q"] read_guess_append)
next
  case (step v g inp x r v1 g1 won v' g' rest)
  then show ?case
    by (simp add: guess_loop.simps [of _ _ _ _ _ _ "inp @ q"] read_guess_append)
qed

subsection \<open>Guesses that cover the word\<close>

lemma guess_loop_covered:
  "set w \<subseteq> correct_letters v \<union> guessed_letters lib inp \<Longrightarrow>
   wrong_letters v \<inter> set w = {} \<Longrightarrow>
   \<not> set w \<subseteq> correct_letters v \<Longrightarrow>
   int (card (guessed_letters lib inp - set w - wrong_letters v)) < attempts_left v \<Longrightarrow>
   \<exists>v' g' rest. guess_loop lib d wd w v g inp = Inr (True, v', g', rest)"
proof (induction lib d wd w v g inp rule: guess_loop.induct)
  case (1 lib d wd w v g inp)
  note cover = "1.prems"(1) and disj = "1.prems"(2) and open_word = "1.prems"(3)
    and budget = "1.prems"(4)
  from budget have pos: "attempts_left v > 0"
    by linarith
  show ?case
  proof (cases "read_guess lib (correct_letters v) (wrong_letters v) inp")
    case (Inl e)
    then have "guessed_letters lib inp \<subseteq> correct_letters v \<union> wrong_letters v"
      by (rule read_guess_Inl_letters)
    with cover disj have "set w \<subseteq> correct_letters v"
      by blast
    with open_word show ?thesis
      by simp
  next
    case (Inr p)
    obtain x r where p: "p = (x, r)"
      by (cases p)
    from Inr p have rg: "read_guess lib (correct_letters v) (wrong_letters v) inp = Inr (x, r)"
      by simp
    from rg have new: "x \<notin> correct_letters v" "x \<notin> wrong_letters v"
      by (simp_all add: read_guess_new)
    from rg have x_in: "x \<in> guessed_letters lib inp"
      and r_sub: "guessed_letters lib r \<subseteq> guessed_letters lib inp"
      and inp_sub: "guessed_letters lib inp
                      \<subseteq> correct_letters v \<union> wrong_letters v \<union> insert x (guessed_letters lib r)"
      using read_guess_Inr_letters [OF rg] by blast+
    show ?thesis
    proof (cases "apply_guess d wd w v g x")
      case (Won v1 g1)
      with pos rg show ?thesis
        by (simp add: guess_loop.simps [of _ _ _ _ v g inp])
    next
      case (Continue v1 g1)
      with pos rg have unfold: "guess_loop lib d wd w v g inp = guess_loop lib d wd w v1 g1 r"
        by (simp add: guess_loop.simps [of _ _ _ _ v g inp])
      from apply_guess_Continue [OF Continue]
      have "\<exists>v' g' rest. guess_loop lib d wd w v1 g1 r = Inr (True, v', g', rest)"
      proof (elim disjE conjE)
        assume xw: "x \<in> set w"
          and v1: "v1 = v\<lparr>correct_letters := insert x (correct_letters v)\<rparr>"
          and nc: "\<not> is_word_complete w (insert x (correct_letters v))"
        have c1: "set w \<subseteq> correct_letters v1 \<union> guessed_letters lib r"
          using cover inp_sub disj v1 by auto
        have c2: "wrong_letters v1 \<inter> set w = {}"
          using disj v1 by simp
        have c3: "\<not> set w \<subseteq> correct_letters v1"
          using nc v1 by (simp add: is_word_complete_subset)
        have "card (guessed_letters lib r - set w - wrong_letters v1)
                \<le> card (guessed_letters lib inp - set w - wrong_letters v)"
          using r_sub v1 by (intro card_mono) (auto simp: finite_guessed_letters)
        with budget have c4: "int (card (guessed_letters lib r - set w - wrong_letters v1))
                                < attempts_left v1"
          using v1 by simp
        show ?thesis
          using "1.IH" [OF pos Inr p [symmetric] Continue c1 c2 c3 c4] .
      next
        assume xw: "x \<notin> set w"
          and v1: "v1 = v\<lparr>wrong_letters := insert x (wrong_letters v),
                          attempts_left := attempts_left v - 1\<rparr>"
        have c1: "set w \<subseteq> correct_letters v1 \<union> guessed_letters lib r"
          using cover inp_sub disj v1 xw by auto
        have c2: "wrong_letters v1 \<inter> set w = {}"
          using disj v1 xw by simp
        have c3: "\<not> set w \<subseteq> correct_letters v1"
          using open_word v1 by simp
        have "guessed_letters lib r - set w - wrong_letters v1
                \<subset> guessed_letters lib inp - set w - wrong_letters v"
          using r_sub v1 x_in xw new by auto
        then have "card (guessed_letters lib r - set w - wrong_letters v1)
                < card (guessed_letters lib inp - set w - wrong_letters v)"
          by (intro psubset_card_mono) (auto simp: finite_guessed_letters)
        with budget have c4: "int (card (guessed_letters lib r - set w - wrong_letters v1))
                                < attempts_left v1"
          using v1 by simp
        show ?thesis
          using "1.IH" [OF pos Inr p [symmetric] Continue c1 c2 c3 c4] .
      qed
      with unfold show ?thesis
        by simp
    qed
  qed
qed

lemma WORD_DATABASE_length: "length (WORD_DATABASE d) = 10"
  by (cases d) (simp_all add: WORD_DATABASE_def)

lemma WORD_DATABASE_nonempty_word: "wd \<in> set (WORD_DATABASE d) \<Longrightarrow> word wd \<noteq> []"
  by (cases d) (auto simp: WORD_DATABASE_def ustr_def)

lemma get_random_word_in_bank:
  "fst (get_random_word d rand draws) \<in> set (WORD_DATABASE d)
   \<and> snd (get_random_word d rand draws) = Suc draws"
  by (simp add: get_random_word_def Let_def WORD_DATABASE_length)

subsection \<open>Lemmas on the loop from its first state\<close>

lemma guess_loop_wrong_disjoint:
  assumes "guess_loop lib d wd w v g inp = Inr (won, v', g', rest)"
  shows "wrong_letters v \<inter> set w = {} \<longrightarrow> wrong_letters v' \<inter> set w = {}"
  using assms
proof (induction rule: guess_loop_run)
  case (stop v g inp)
  then show ?case by simp
next
  case (win v g inp x r v1 g1)
  from apply_guess_Won [OF win(3)] show ?case by auto
next
  case (step v g inp x r v1 g1 won v' g' rest)
  from apply_guess_Continue [OF step(3)] step(5) show ?case by auto
qed

lemma play_round_Inr:
  "play_round lib d rand draws g inp = Inr (won, g', draws', rest) \<longleftrightarrow>
     (\<exists>v'. guess_loop lib d (fst (get_random_word d rand draws))
              (str_upper lib (word (fst (get_random_word d rand draws)))) initial_vars g inp
            = Inr (won, v', g', rest))
     \<and> draws' = Suc draws"
  by (auto simp: play_round_def get_random_word_def Let_def split: sum.splits)

lemma initial_vars_simps:
  "correct_letters initial_vars = {}" "wrong_letters initial_vars = {}"
  "attempts_left initial_vars = MAX_ATTEMPTS"
  by (simp_all add: initial_vars_def)

lemmas round_eval =
  play_round_def get_random_word_def WORD_DATABASE_def guess_loop.simps initial_vars_def
  MAX_ATTEMPTS_def ascii_library_def ascii_upper_def ascii_strip_def ascii_space_def
  ascii_isalpha_def apply_guess_def is_word_complete_def base_points_def ustr_def Let_def

lemmas letters_eval =
  guessed_letters_def List.map_filter_simps letter_of_line_def ascii_library_def
  ascii_upper_def ascii_strip_def ascii_space_def ascii_isalpha_def ustr_def Let_def


subsection \<open>Libraries that agree on ASCII\<close>

lemma is_ascii_strip: "is_ascii s \<Longrightarrow> is_ascii (ascii_strip s)"
proof -
  assume a: "is_ascii s"
  have "set (ascii_strip s) \<subseteq> set s"
    unfolding ascii_strip_def
    using set_dropWhileD [of _ ascii_space "rev (dropWhile ascii_space s)"]
          set_dropWhileD [of _ ascii_space s]
    by auto
  with a show ?thesis
    by (auto simp: is_ascii_def list_all_iff)
qed

lemma is_ascii_upper: "is_ascii s \<Longrightarrow> is_ascii (ascii_upper s)"
  by (auto simp: is_ascii_def ascii_upper_def list_all_iff)

lemma read_guess_ascii:
  assumes agree: "\<And>s. is_ascii s \<Longrightarrow> str_strip lib s = ascii_strip s
                    \<and> str_upper lib s = ascii_upper s \<and> str_isalpha lib s = ascii_isalpha s"
  shows "list_all is_ascii inp \<Longrightarrow>
         read_guess lib c w inp = read_guess ascii_library c w inp"
proof (induction inp)
  case Nil
  show ?case by simp
next
  case (Cons line rest)
  from Cons.prems have line: "is_ascii line" and rest: "list_all is_ascii rest"
    by simp_all
  from line have s: "str_strip lib line = ascii_strip line"
    by (simp add: agree)
  from line have u: "str_upper lib (ascii_strip line) = ascii_upper (ascii_strip line)"
    by (simp add: agree is_ascii_strip)
  from line have i: "str_isalpha lib (ascii_upper (ascii_strip line))
      = ascii_isalpha (ascii_upper (ascii_strip line))"
    by (simp add: agree is_ascii_strip is_ascii_upper)
  from Cons.IH [OF rest] s u i show ?case
    by (simp add: ascii_library_def Let_def)
qed

lemma read_guess_rest:
  "read_guess lib c w inp = Inr (x, r) \<Longrightarrow> list_all P inp \<Longrightarrow> list_all P r"
  by (induction inp) (auto simp: Let_def split: if_splits)

lemma guess_loop_ascii:
  assumes agree: "\<And>s. is_ascii s \<Longrightarrow> str_strip lib s = ascii_strip s
                    \<and> str_upper lib s = ascii_upper s \<and> str_isalpha lib s = ascii_isalpha s"
  shows "list_all is_ascii inp \<Longrightarrow>
         guess_loop lib d wd w v g inp = guess_loop ascii_library d wd w v g inp"
proof (induction "length inp" arbitrary: inp v g rule: less_induct)
  case less
  show ?case
  proof (cases "attempts_left v > 0")
    case False
    then show ?thesis
      by (simp add: guess_loop.simps [of _ _ _ _ v g inp])
  next
    case True
    have rg: "read_guess lib (correct_letters v) (wrong_letters v) inp
        = read_guess ascii_library (correct_letters v) (wrong_letters v) inp"
      using agree less.prems by (rule read_guess_ascii)
    show ?thesis
    proof (cases "read_guess ascii_library (correct_letters v) (wrong_letters v) inp")
      case (Inl e)
      with True rg show ?thesis
        by (simp add: guess_loop.simps [of _ _ _ _ v g inp])
    next
      case (Inr p)
      obtain x r where p: "p = (x, r)"
        by (cases p)
      from Inr p have r_short: "length r < length inp" and r_ascii: "list_all is_ascii r"
        using read_guess_new [of ascii_library _ _ inp x r]
              read_guess_rest [of ascii_library _ _ inp x r is_ascii] less.prems
        by simp_all
      show ?thesis
      proof (cases "apply_guess d wd w v g x")
        case (Won v1 g1)
        with True rg Inr p show ?thesis
          by (simp add: guess_loop.simps [of _ _ _ _ v g inp])
      next
        case (Continue v1 g1)
        with True rg Inr p less.hyps [OF r_short r_ascii, of v1 g1] show ?thesis
          by (simp add: guess_loop.simps [of _ _ _ _ v g inp])
      qed
    qed
  qed
qed

section \<open>Claims about one round\<close>

subsection \<open>Attempts left\<close>

text \<open>
  C5: \<open>attempts_left\<close> starts at \<open>MAX_ATTEMPTS\<close>. One pass of the loop, entered with
  \<open>0 < attempts_left \<le> MAX_ATTEMPTS\<close> and an accepted new guess, leaves it between 0 and
  \<open>MAX_ATTEMPTS\<close>: unchanged when the guess occurs in the word, one less when it does
  not. So the loop resumed in any state within the range ends within the range, and at
  the end of a round \<open>attempts_left\<close> is \<open>MAX_ATTEMPTS\<close> less the number of wrong
  letters, none of which occurs in the word.
\<close>

theorem attempts_left_range:
  "attempts_left initial_vars = MAX_ATTEMPTS
   \<and> (0 < attempts_left v \<and> attempts_left v \<le> MAX_ATTEMPTS \<longrightarrow>
        (case apply_guess d wd w v g x of
           Won v1 g1 \<Rightarrow> x \<in> set w \<and> attempts_left v1 = attempts_left v
         | Continue v1 g1 \<Rightarrow>
             0 \<le> attempts_left v1 \<and> attempts_left v1 \<le> MAX_ATTEMPTS
             \<and> attempts_left v1
                 = (if x \<in> set w then attempts_left v else attempts_left v - 1)))
   \<and> (0 \<le> attempts_left v \<and> attempts_left v \<le> MAX_ATTEMPTS
        \<and> guess_loop lib d wd w v g inp = Inr (won, v', g', rest) \<longrightarrow>
        0 \<le> attempts_left v' \<and> attempts_left v' \<le> MAX_ATTEMPTS)
   \<and> (guess_loop lib d wd w initial_vars g inp = Inr (won, v', g', rest) \<longrightarrow>
        0 \<le> attempts_left v' \<and> attempts_left v' \<le> MAX_ATTEMPTS
        \<and> attempts_left v' = MAX_ATTEMPTS - int (card (wrong_letters v'))
        \<and> wrong_letters v' \<inter> set w = {})"
proof -
  have a: "attempts_left initial_vars = MAX_ATTEMPTS"
    by (simp add: initial_vars_def)
  have b: "0 < attempts_left v \<and> attempts_left v \<le> MAX_ATTEMPTS \<longrightarrow>
        (case apply_guess d wd w v g x of
           Won v1 g1 \<Rightarrow> x \<in> set w \<and> attempts_left v1 = attempts_left v
         | Continue v1 g1 \<Rightarrow>
             0 \<le> attempts_left v1 \<and> attempts_left v1 \<le> MAX_ATTEMPTS
             \<and> attempts_left v1
                 = (if x \<in> set w then attempts_left v else attempts_left v - 1))"
    by (auto simp: apply_guess_def Let_def)
  have c: "0 \<le> attempts_left v \<and> attempts_left v \<le> MAX_ATTEMPTS
        \<and> guess_loop lib d wd w v g inp = Inr (won, v', g', rest) \<longrightarrow>
        0 \<le> attempts_left v' \<and> attempts_left v' \<le> MAX_ATTEMPTS"
    using guess_loop_attempts [of lib d wd w v g inp won v' g' rest] by blast
  have e: "guess_loop lib d wd w initial_vars g inp = Inr (won, v', g', rest) \<longrightarrow>
        0 \<le> attempts_left v' \<and> attempts_left v' \<le> MAX_ATTEMPTS
        \<and> attempts_left v' = MAX_ATTEMPTS - int (card (wrong_letters v'))
        \<and> wrong_letters v' \<inter> set w = {}"
  proof
    assume run: "guess_loop lib d wd w initial_vars g inp = Inr (won, v', g', rest)"
    have "0 \<le> attempts_left v' \<and> attempts_left v' \<le> MAX_ATTEMPTS"
      using guess_loop_attempts [OF run] by (simp add: initial_vars_simps MAX_ATTEMPTS_def)
    moreover have "attempts_left v' = MAX_ATTEMPTS - int (card (wrong_letters v'))"
      using guess_loop_wrong_count [OF run] by (simp add: initial_vars_simps)
    moreover have "wrong_letters v' \<inter> set w = {}"
      using guess_loop_wrong_disjoint [OF run] by (simp add: initial_vars_simps)
    ultimately show "0 \<le> attempts_left v' \<and> attempts_left v' \<le> MAX_ATTEMPTS
        \<and> attempts_left v' = MAX_ATTEMPTS - int (card (wrong_letters v'))
        \<and> wrong_letters v' \<inter> set w = {}"
      by blast
  qed
  from a b c e show ?thesis
    by blast
qed

text \<open>
  The word DOG: the wrong guess X costs one attempt, the three right guesses and the
  repeated x cost none. The letters D, O, G and X are the code points 68, 79, 71 and 88.
\<close>

theorem attempts_left_range_witness:
  "0 < attempts_left initial_vars \<and> attempts_left initial_vars \<le> MAX_ATTEMPTS
   \<and> apply_guess Easy \<lparr>word = ustr ''dog'',
       sentence = ustr ''My dog is very friendly.''\<rparr> (ustr ''DOG'')
        initial_vars fresh_game 88
      = Continue \<lparr>correct_letters = {}, wrong_letters = {88}, attempts_left = 5\<rparr>
          (fresh_game\<lparr>total_attempts := 1\<rparr>)
   \<and> guess_loop ascii_library Easy \<lparr>word = ustr ''dog'',
       sentence = ustr ''My dog is very friendly.''\<rparr> (ustr ''DOG'')
        initial_vars fresh_game [ustr ''X'', ustr ''d'', ustr ''o'', ustr ''x'', ustr ''g'']
      = Inr (True,
             \<lparr>correct_letters = {71, 79, 68}, wrong_letters = {88},
               attempts_left = 5\<rparr>,
             fresh_game\<lparr>score := 35, words_learned := [ustr ''dog''], total_attempts := 4,
                         correct_guesses := 3\<rparr>,
             [])"
  using attempts_left_range [where v = initial_vars and d = Easy and lib = ascii_library
        and wd = "\<lparr>word = ustr ''dog'',
            sentence = ustr ''My dog is very friendly.''\<rparr>"
        and w = "(ustr ''DOG'')" and g = fresh_game and x = "88"
        and inp = "[ustr ''X'', ustr ''d'', ustr ''o'', ustr ''x'', ustr ''g'']" and won = True
        and v' = "\<lparr>correct_letters = {71, 79, 68},
                    wrong_letters = {88}, attempts_left = 5\<rparr>"
        and g' = "fresh_game\<lparr>score := 35, words_learned := [ustr ''dog''],
            total_attempts := 4,
                         correct_guesses := 3\<rparr>"
        and rest = "[]"]
  by (simp add: round_eval)

subsection \<open>Guesses that are turned away\<close>

text \<open>
  C6: while the round is on (\<open>0 < attempts_left\<close>), a line that is not a single letter
  by the test of the program (whatever the string methods of the interpreter are), or
  whose letter is already among the correct or the wrong letters, is read and
  nothing else happens: the loop goes on with the same local variables and the same
  object, so \<open>attempts_left\<close>, \<open>total_attempts\<close>, \<open>correct_guesses\<close> and both sets of
  letters are as before. A line that is a new single letter is applied, and that counts
  one attempt in \<open>total_attempts\<close>.
\<close>

theorem rejected_guess_frame:
  "(0 < attempts_left v
      \<and> (\<not> (length (str_upper lib (str_strip lib line)) = 1 \<and> str_isalpha lib (str_upper lib (str_strip lib line)))
          \<or> hd (str_upper lib (str_strip lib line)) \<in> correct_letters v
          \<or> hd (str_upper lib (str_strip lib line)) \<in> wrong_letters v) \<longrightarrow>
      guess_loop lib d wd w v g (line # inp) = guess_loop lib d wd w v g inp)
   \<and> (0 < attempts_left v
      \<and> length (str_upper lib (str_strip lib line)) = 1 \<and> str_isalpha lib (str_upper lib (str_strip lib line))
      \<and> hd (str_upper lib (str_strip lib line)) \<notin> correct_letters v
      \<and> hd (str_upper lib (str_strip lib line)) \<notin> wrong_letters v \<longrightarrow>
      guess_loop lib d wd w v g (line # inp)
        = (case apply_guess d wd w v g (hd (str_upper lib (str_strip lib line))) of
             Won v1 g1 \<Rightarrow> Inr (True, v1, g1, inp)
           | Continue v1 g1 \<Rightarrow> guess_loop lib d wd w v1 g1 inp)
      \<and> (case apply_guess d wd w v g (hd (str_upper lib (str_strip lib line))) of
             Won v1 g1 \<Rightarrow> total_attempts g1 = total_attempts g + 1
           | Continue v1 g1 \<Rightarrow> total_attempts g1 = total_attempts g + 1))"
proof -
  let ?guess = "str_upper lib (str_strip lib line)"
  have a: "guess_loop lib d wd w v g (line # inp) = guess_loop lib d wd w v g inp"
    if "0 < attempts_left v"
      and "\<not> (length ?guess = 1 \<and> str_isalpha lib ?guess)
          \<or> hd ?guess \<in> correct_letters v \<or> hd ?guess \<in> wrong_letters v"
  proof -
    from that(2) have "read_guess lib (correct_letters v) (wrong_letters v) (line # inp)
        = read_guess lib (correct_letters v) (wrong_letters v) inp"
      by (auto simp: Let_def)
    with that(1) show ?thesis
      by (simp add: guess_loop.simps [of _ _ _ _ v g "line # inp"]
                    guess_loop.simps [of _ _ _ _ v g inp] del: read_guess.simps)
  qed
  have b: "guess_loop lib d wd w v g (line # inp)
        = (case apply_guess d wd w v g (hd ?guess) of
             Won v1 g1 \<Rightarrow> Inr (True, v1, g1, inp)
           | Continue v1 g1 \<Rightarrow> guess_loop lib d wd w v1 g1 inp)"
    if "0 < attempts_left v" and "length ?guess = 1" and "str_isalpha lib ?guess"
      and "hd ?guess \<notin> correct_letters v" and "hd ?guess \<notin> wrong_letters v"
  proof -
    from that(2-5) have "read_guess lib (correct_letters v) (wrong_letters v) (line # inp)
        = Inr (hd ?guess, inp)"
      by (simp add: Let_def)
    with that(1) show ?thesis
      by (simp add: guess_loop.simps [of _ _ _ _ v g "line # inp"] del: read_guess.simps)
  qed
  have c: "case apply_guess d wd w v g y of
             Won v1 g1 \<Rightarrow> total_attempts g1 = total_attempts g + 1
           | Continue v1 g1 \<Rightarrow> total_attempts g1 = total_attempts g + 1" for y
    by (simp add: apply_guess_def Let_def)
  from a b c show ?thesis
    by blast
qed

text \<open>
  In the middle of a round on DOG, with D and X guessed: the lines \<open>x\<close>, \<open>do\<close>, \<open>7\<close>,
  the empty line, \<open>d\<close>, \<open>D\<close> and \<open>X\<close> change nothing, and \<open>o\<close> and \<open>g\<close> win. The
  input is ASCII, and the string methods are those of \<open>ascii_library\<close>.
\<close>

theorem rejected_guess_frame_witness:
  "0 < attempts_left \<lparr>correct_letters = {68}, wrong_letters = {88},
                       attempts_left = 5\<rparr>
   \<and> hd (str_upper ascii_library (str_strip ascii_library (ustr '' x ''))) \<in> {88}
   \<and> \<not> (length (str_upper ascii_library (str_strip ascii_library (ustr ''do''))) = 1 \<and> str_isalpha ascii_library (str_upper ascii_library (str_strip ascii_library (ustr ''do''))))
   \<and> guess_loop ascii_library Easy \<lparr>word = ustr ''dog'',
       sentence = ustr ''My dog is very friendly.''\<rparr> (ustr ''DOG'')
        \<lparr>correct_letters = {68}, wrong_letters = {88}, attempts_left = 5\<rparr>
        (fresh_game\<lparr>total_attempts := 2, correct_guesses := 1\<rparr>) [ustr '' x '',
            ustr ''o'', ustr ''g'']
      = guess_loop ascii_library Easy \<lparr>word = ustr ''dog'',
          sentence = ustr ''My dog is very friendly.''\<rparr> (ustr ''DOG'')
        \<lparr>correct_letters = {68}, wrong_letters = {88}, attempts_left = 5\<rparr>
        (fresh_game\<lparr>total_attempts := 2, correct_guesses := 1\<rparr>) [ustr ''o'',
            ustr ''g'']
   \<and> guess_loop ascii_library Easy \<lparr>word = ustr ''dog'',
       sentence = ustr ''My dog is very friendly.''\<rparr> (ustr ''DOG'')
        \<lparr>correct_letters = {68}, wrong_letters = {88}, attempts_left = 5\<rparr>
        (fresh_game\<lparr>total_attempts := 2, correct_guesses := 1\<rparr>)
        [ustr '' x '', ustr ''do'', ustr ''7'', [], ustr ''d'', ustr ''o'', ustr ''D'',
            ustr ''X'', ustr ''g'']
      = Inr (True,
             \<lparr>correct_letters = {71, 79, 68}, wrong_letters = {88},
               attempts_left = 5\<rparr>,
             fresh_game\<lparr>score := 35, words_learned := [ustr ''dog''], total_attempts := 4,
                         correct_guesses := 3\<rparr>,
             [])"
proof -
  let ?v = "\<lparr>correct_letters = {68}, wrong_letters = {88}, attempts_left = 5\<rparr>"
  have pos: "0 < attempts_left ?v"
    by simp
  have seen: "hd (str_upper ascii_library (str_strip ascii_library (ustr '' x ''))) \<in> {88}"
    by (simp add: round_eval)
  have long: "\<not> (length (str_upper ascii_library (str_strip ascii_library (ustr ''do''))) = 1
                 \<and> str_isalpha ascii_library (str_upper ascii_library (str_strip ascii_library (ustr ''do''))))"
    by (simp add: round_eval)
  from seen have rejected:
    "\<not> (length (str_upper ascii_library (str_strip ascii_library (ustr '' x ''))) = 1 \<and> str_isalpha ascii_library (str_upper ascii_library (str_strip ascii_library (ustr '' x ''))))
     \<or> hd (str_upper ascii_library (str_strip ascii_library (ustr '' x ''))) \<in> correct_letters ?v
     \<or> hd (str_upper ascii_library (str_strip ascii_library (ustr '' x ''))) \<in> wrong_letters ?v"
    by simp
  from rejected_guess_frame [THEN conjunct1, rule_format, OF conjI [OF pos rejected]]
  have same: "guess_loop ascii_library Easy \<lparr>word = ustr ''dog'',
      sentence = ustr ''My dog is very friendly.''\<rparr> (ustr ''DOG'')
        ?v (fresh_game\<lparr>total_attempts := 2, correct_guesses := 1\<rparr>) [ustr '' x '',
            ustr ''o'', ustr ''g'']
      = guess_loop ascii_library Easy \<lparr>word = ustr ''dog'',
          sentence = ustr ''My dog is very friendly.''\<rparr> (ustr ''DOG'')
        ?v (fresh_game\<lparr>total_attempts := 2, correct_guesses := 1\<rparr>) [ustr ''o'',
            ustr ''g'']" .
  have run: "guess_loop ascii_library Easy \<lparr>word = ustr ''dog'',
      sentence = ustr ''My dog is very friendly.''\<rparr> (ustr ''DOG'')
        ?v (fresh_game\<lparr>total_attempts := 2, correct_guesses := 1\<rparr>)
        [ustr '' x '', ustr ''do'', ustr ''7'', [], ustr ''d'', ustr ''o'', ustr ''D'',
            ustr ''X'', ustr ''g'']
      = Inr (True,
             \<lparr>correct_letters = {71, 79, 68}, wrong_letters = {88},
               attempts_left = 5\<rparr>,
             fresh_game\<lparr>score := 35, words_learned := [ustr ''dog''], total_attempts := 4,
                         correct_guesses := 3\<rparr>,
             [])"
    by (simp add: round_eval)
  from pos seen long same run show ?thesis
    by blast
qed

subsection \<open>Points of a round that is won\<close>

text \<open>
  C4: a round that is won adds \<open>base_points difficulty + attempts_left * 5\<close> to the
  score of the session, with \<open>attempts_left\<close> as it is when the word is completed
  (\<open>MAX_ATTEMPTS\<close> less the number of wrong letters), and appends the word to the words
  learned; the base points are 10, 20 and 30; the guess that wins does not change
  \<open>attempts_left\<close>. For the word CAT on easy and the guesses C, A, T the round is won with
  6 attempts left and 40 points, under any string methods that do on ASCII strings what
  is written in \<open>ascii_library\<close>.
\<close>

theorem won_round_points:
  "(guess_loop lib d wd w initial_vars g inp = Inr (True, v', g', rest) \<longrightarrow>
      score g' = score g + (base_points d + attempts_left v' * 5)
      \<and> attempts_left v' = MAX_ATTEMPTS - int (card (wrong_letters v'))
      \<and> words_learned g' = words_learned g @ [word wd])
   \<and> (play_round lib d rand draws g inp = Inr (True, g2, draws2, rest2) \<longrightarrow>
      (\<exists>a. 0 \<le> a \<and> a \<le> MAX_ATTEMPTS \<and> score g2 = score g + (base_points d + a * 5)))
   \<and> (apply_guess d wd w v g x = Won v1 g1 \<longrightarrow>
      attempts_left v1 = attempts_left v
      \<and> score g1 = score g + (base_points d + attempts_left v * 5))
   \<and> base_points Easy = 10 \<and> base_points Medium = 20 \<and> base_points Hard = 30
   \<and> guess_loop ascii_library Easy
        \<lparr>word = ustr ''cat'',
            sentence = ustr ''The cat is sleeping.''\<rparr> (ustr ''CAT'')
        initial_vars fresh_game [ustr ''C'', ustr ''A'', ustr ''T'']
      = Inr (True,
             \<lparr>correct_letters = {84, 65, 67}, wrong_letters = {}, attempts_left = 6\<rparr>,
             fresh_game\<lparr>score := 40, words_learned := [ustr ''cat''], total_attempts := 3,
                         correct_guesses := 3\<rparr>,
             [])
   \<and> ((\<forall>s. is_ascii s \<longrightarrow> str_strip lib s = ascii_strip s
             \<and> str_upper lib s = ascii_upper s \<and> str_isalpha lib s = ascii_isalpha s) \<longrightarrow>
        guess_loop lib Easy
          \<lparr>word = ustr ''cat'',
              sentence = ustr ''The cat is sleeping.''\<rparr> (ustr ''CAT'')
          initial_vars fresh_game [ustr ''C'', ustr ''A'', ustr ''T'']
        = Inr (True,
               \<lparr>correct_letters = {84, 65, 67}, wrong_letters = {}, attempts_left = 6\<rparr>,
               fresh_game\<lparr>score := 40, words_learned := [ustr ''cat''],
                   total_attempts := 3,
                           correct_guesses := 3\<rparr>,
               [])
        \<and> (rand draws mod 10 = 2 \<longrightarrow>
             play_round lib Easy rand draws fresh_game [ustr ''C'', ustr ''A'', ustr ''T'']
             = Inr (True,
                    fresh_game\<lparr>score := 40, words_learned := [ustr ''cat''],
                                total_attempts := 3, correct_guesses := 3\<rparr>,
                    Suc draws, [])))"
proof -
  have a: "guess_loop lib d wd w initial_vars g inp = Inr (True, v', g', rest) \<longrightarrow>
      score g' = score g + (base_points d + attempts_left v' * 5)
      \<and> attempts_left v' = MAX_ATTEMPTS - int (card (wrong_letters v'))
      \<and> words_learned g' = words_learned g @ [word wd]"
  proof
    assume run: "guess_loop lib d wd w initial_vars g inp = Inr (True, v', g', rest)"
    from guess_loop_score [OF run] guess_loop_wrong_count [OF run]
    show "score g' = score g + (base_points d + attempts_left v' * 5)
      \<and> attempts_left v' = MAX_ATTEMPTS - int (card (wrong_letters v'))
      \<and> words_learned g' = words_learned g @ [word wd]"
      by (simp add: initial_vars_simps)
  qed
  have b: "play_round lib d rand draws g inp = Inr (True, g2, draws2, rest2) \<longrightarrow>
      (\<exists>a. 0 \<le> a \<and> a \<le> MAX_ATTEMPTS \<and> score g2 = score g + (base_points d + a * 5))"
  proof
    assume "play_round lib d rand draws g inp = Inr (True, g2, draws2, rest2)"
    then obtain v2 where run: "guess_loop lib d (fst (get_random_word d rand draws))
              (str_upper lib (word (fst (get_random_word d rand draws)))) initial_vars g inp
            = Inr (True, v2, g2, rest2)"
      by (auto simp: play_round_Inr)
    from guess_loop_attempts [OF run]
    have "0 \<le> attempts_left v2 \<and> attempts_left v2 \<le> MAX_ATTEMPTS"
      by (simp add: initial_vars_simps MAX_ATTEMPTS_def)
    moreover from guess_loop_score [OF run]
    have "score g2 = score g + (base_points d + attempts_left v2 * 5)"
      by simp
    ultimately show "\<exists>a. 0 \<le> a \<and> a \<le> MAX_ATTEMPTS
        \<and> score g2 = score g + (base_points d + a * 5)"
      by blast
  qed
  have c: "apply_guess d wd w v g x = Won v1 g1 \<longrightarrow>
      attempts_left v1 = attempts_left v
      \<and> score g1 = score g + (base_points d + attempts_left v * 5)"
    by (auto dest!: apply_guess_Won)
  have e: "base_points Easy = 10 \<and> base_points Medium = 20 \<and> base_points Hard = 30"
    by (simp add: base_points_def)
  have f: "guess_loop ascii_library Easy
        \<lparr>word = ustr ''cat'',
            sentence = ustr ''The cat is sleeping.''\<rparr> (ustr ''CAT'')
        initial_vars fresh_game [ustr ''C'', ustr ''A'', ustr ''T'']
      = Inr (True,
             \<lparr>correct_letters = {84, 65, 67}, wrong_letters = {}, attempts_left = 6\<rparr>,
             fresh_game\<lparr>score := 40, words_learned := [ustr ''cat''], total_attempts := 3,
                         correct_guesses := 3\<rparr>,
             [])"
    by (simp add: round_eval)
  have h: "guess_loop lib Easy
          \<lparr>word = ustr ''cat'',
              sentence = ustr ''The cat is sleeping.''\<rparr> (ustr ''CAT'')
          initial_vars fresh_game [ustr ''C'', ustr ''A'', ustr ''T'']
        = Inr (True,
               \<lparr>correct_letters = {84, 65, 67}, wrong_letters = {}, attempts_left = 6\<rparr>,
               fresh_game\<lparr>score := 40, words_learned := [ustr ''cat''],
                   total_attempts := 3,
                           correct_guesses := 3\<rparr>,
               [])
        \<and> (rand draws mod 10 = 2 \<longrightarrow>
             play_round lib Easy rand draws fresh_game [ustr ''C'', ustr ''A'', ustr ''T'']
             = Inr (True,
                    fresh_game\<lparr>score := 40, words_learned := [ustr ''cat''],
                                total_attempts := 3, correct_guesses := 3\<rparr>,
                    Suc draws, []))"
    if agree: "\<forall>s. is_ascii s \<longrightarrow> str_strip lib s = ascii_strip s
             \<and> str_upper lib s = ascii_upper s \<and> str_isalpha lib s = ascii_isalpha s"
  proof -
    have lines: "list_all is_ascii [ustr ''C'', ustr ''A'', ustr ''T'']"
      by (simp add: is_ascii_def ustr_def)
    have loop: "guess_loop lib Easy
          \<lparr>word = ustr ''cat'',
              sentence = ustr ''The cat is sleeping.''\<rparr> (ustr ''CAT'')
          initial_vars fresh_game [ustr ''C'', ustr ''A'', ustr ''T'']
        = Inr (True,
               \<lparr>correct_letters = {84, 65, 67}, wrong_letters = {}, attempts_left = 6\<rparr>,
               fresh_game\<lparr>score := 40, words_learned := [ustr ''cat''],
                   total_attempts := 3,
                           correct_guesses := 3\<rparr>,
               [])"
      using guess_loop_ascii [of lib "[ustr ''C'', ustr ''A'', ustr ''T'']"] agree lines f
      by simp
    have "is_ascii (ustr ''cat'')"
      by (simp add: is_ascii_def ustr_def)
    with agree have "str_upper lib (ustr ''cat'') = ascii_upper (ustr ''cat'')"
      by simp
    then have upper: "str_upper lib (ustr ''cat'') = ustr ''CAT''"
      by (simp add: ascii_upper_def ustr_def)
    have "play_round lib Easy rand draws fresh_game [ustr ''C'', ustr ''A'', ustr ''T'']
             = Inr (True,
                    fresh_game\<lparr>score := 40, words_learned := [ustr ''cat''],
                                total_attempts := 3, correct_guesses := 3\<rparr>,
                    Suc draws, [])"
      if "rand draws mod 10 = 2"
      using that loop upper
      by (simp add: play_round_def get_random_word_def WORD_DATABASE_def)
    with loop show ?thesis
      by blast
  qed
  from a b c e f h show ?thesis
    by blast
qed

text \<open>
  The same word with two wrong guesses on the way: 4 attempts left, 30 points. The
  letters C, A, T, X and Y are the code points 67, 65, 84, 88 and 89.
\<close>

theorem won_round_points_witness:
  "play_round ascii_library Easy (\<lambda>_. 2) 0 fresh_game [ustr ''C'', ustr ''A'', ustr ''T'']
      = Inr (True,
             fresh_game\<lparr>score := 40, words_learned := [ustr ''cat''], total_attempts := 3,
                         correct_guesses := 3\<rparr>,
             1, [])
   \<and> guess_loop ascii_library Easy \<lparr>word = ustr ''cat'',
       sentence = ustr ''The cat is sleeping.''\<rparr> (ustr ''CAT'')
        initial_vars fresh_game [ustr ''x'', ustr ''c'', ustr ''a'', ustr ''y'', ustr ''t'',
            ustr ''z'']
      = Inr (True,
             \<lparr>correct_letters = {84, 65, 67},
               wrong_letters = {89, 88}, attempts_left = 4\<rparr>,
             fresh_game\<lparr>score := 30, words_learned := [ustr ''cat''], total_attempts := 5,
                         correct_guesses := 3\<rparr>,
             [ustr ''z''])
   \<and> (30::int) = 0 + (base_points Easy + 4 * 5)"
proof -
  have run: "guess_loop ascii_library Easy \<lparr>word = ustr ''cat'',
      sentence = ustr ''The cat is sleeping.''\<rparr> (ustr ''CAT'')
        initial_vars fresh_game [ustr ''x'', ustr ''c'', ustr ''a'', ustr ''y'', ustr ''t'',
            ustr ''z'']
      = Inr (True,
             \<lparr>correct_letters = {84, 65, 67},
               wrong_letters = {89, 88}, attempts_left = 4\<rparr>,
             fresh_game\<lparr>score := 30, words_learned := [ustr ''cat''], total_attempts := 5,
                         correct_guesses := 3\<rparr>,
             [ustr ''z''])"
    by (simp add: round_eval)
  have play: "play_round ascii_library Easy (\<lambda>_. 2) 0 fresh_game [ustr ''C'', ustr ''A'',
      ustr ''T'']
      = Inr (True,
             fresh_game\<lparr>score := 40, words_learned := [ustr ''cat''], total_attempts := 3,
                         correct_guesses := 3\<rparr>,
             1, [])"
    by (simp add: round_eval)
  from won_round_points [THEN conjunct1, rule_format, OF run]
  have "(30::int) = 0 + (base_points Easy + 4 * 5)"
    by simp
  with run play show ?thesis
    by simp
qed

subsection \<open>A round that is lost\<close>

text \<open>
  C7: when \<open>attempts_left\<close> is not positive the loop is left and the round reports
  failure; a round that reports failure ends with \<open>attempts_left = 0\<close> and leaves the
  score of the session and the words learned as they were.
\<close>

theorem failed_round_frame:
  "(play_round lib d rand draws g inp = Inr (False, g', draws', rest) \<longrightarrow>
      score g' = score g \<and> words_learned g' = words_learned g)
   \<and> (guess_loop lib d wd w initial_vars g inp = Inr (False, v2, g2, rest2) \<longrightarrow>
      attempts_left v2 = 0 \<and> score g2 = score g \<and> words_learned g2 = words_learned g)
   \<and> (\<not> 0 < attempts_left v \<longrightarrow> guess_loop lib d wd w v g inp = Inr (False, v, g, inp))"
proof -
  have a: "play_round lib d rand draws g inp = Inr (False, g', draws', rest) \<longrightarrow>
      score g' = score g \<and> words_learned g' = words_learned g"
  proof
    assume "play_round lib d rand draws g inp = Inr (False, g', draws', rest)"
    then obtain v' where run: "guess_loop lib d (fst (get_random_word d rand draws))
              (str_upper lib (word (fst (get_random_word d rand draws)))) initial_vars g inp
            = Inr (False, v', g', rest)"
      by (auto simp: play_round_Inr)
    from guess_loop_score [OF run]
    show "score g' = score g \<and> words_learned g' = words_learned g"
      by simp
  qed
  have b: "guess_loop lib d wd w initial_vars g inp = Inr (False, v2, g2, rest2) \<longrightarrow>
      attempts_left v2 = 0 \<and> score g2 = score g \<and> words_learned g2 = words_learned g"
  proof
    assume run: "guess_loop lib d wd w initial_vars g inp = Inr (False, v2, g2, rest2)"
    from guess_loop_attempts [OF run] have "attempts_left v2 = 0"
      by (simp add: initial_vars_simps MAX_ATTEMPTS_def)
    with guess_loop_score [OF run]
    show "attempts_left v2 = 0 \<and> score g2 = score g \<and> words_learned g2 = words_learned g"
      by simp
  qed
  have c: "\<not> 0 < attempts_left v \<longrightarrow> guess_loop lib d wd w v g inp = Inr (False, v, g, inp)"
    by (simp add: guess_loop.simps [of _ _ _ _ v g inp])
  from a b c show ?thesis
    by blast
qed

text \<open>
  The word DOG with the six wrong guesses X, Y, Z, Q, W, V, after a first round that
  earned 40 points.
\<close>

theorem failed_round_frame_witness:
  "play_round ascii_library Easy (\<lambda>_. 3) 0
      (fresh_game\<lparr>score := 40, words_learned := [ustr ''cat''], total_attempts := 3,
                   correct_guesses := 3\<rparr>)
      [ustr ''X'', ustr ''Y'', ustr ''Z'', ustr ''Q'', ustr ''W'', ustr ''V'']
    = Inr (False,
           fresh_game\<lparr>score := 40, words_learned := [ustr ''cat''], total_attempts := 9,
                       correct_guesses := 3\<rparr>,
           1, [])
   \<and> guess_loop ascii_library Easy \<lparr>word = ustr ''dog'',
       sentence = ustr ''My dog is very friendly.''\<rparr> (ustr ''DOG'')
        initial_vars fresh_game [ustr ''X'', ustr ''Y'', ustr ''Z'', ustr ''Q'', ustr ''W'',
            ustr ''V'']
      = Inr (False,
             \<lparr>correct_letters = {},
               wrong_letters = {86, 87, 81, 90, 89, 88},
               attempts_left = 0\<rparr>,
             fresh_game\<lparr>total_attempts := 6\<rparr>, [])"
proof -
  have play: "play_round ascii_library Easy (\<lambda>_. 3) 0
      (fresh_game\<lparr>score := 40, words_learned := [ustr ''cat''], total_attempts := 3,
                   correct_guesses := 3\<rparr>)
      [ustr ''X'', ustr ''Y'', ustr ''Z'', ustr ''Q'', ustr ''W'', ustr ''V'']
    = Inr (False,
           fresh_game\<lparr>score := 40, words_learned := [ustr ''cat''], total_attempts := 9,
                       correct_guesses := 3\<rparr>,
           1, [])"
    by (simp add: round_eval)
  have run: "guess_loop ascii_library Easy \<lparr>word = ustr ''dog'',
      sentence = ustr ''My dog is very friendly.''\<rparr> (ustr ''DOG'')
        initial_vars fresh_game [ustr ''X'', ustr ''Y'', ustr ''Z'', ustr ''Q'', ustr ''W'',
            ustr ''V'']
      = Inr (False,
             \<lparr>correct_letters = {},
               wrong_letters = {86, 87, 81, 90, 89, 88},
               attempts_left = 0\<rparr>,
             fresh_game\<lparr>total_attempts := 6\<rparr>, [])"
    by (simp add: round_eval)
  from failed_round_frame [THEN conjunct1, rule_format, OF play]
  have "score (fresh_game\<lparr>score := 40, words_learned := [ustr ''cat''],
      total_attempts := 9,
                       correct_guesses := 3\<rparr>) = 40"
    by simp
  with play run show ?thesis
    by simp
qed

subsection \<open>Guesses that cover the word and the attempts they cost\<close>

text \<open>
  C2, as the specification states it, holds for every sequence of guesses that covers
  the letters of the word. The nine lines X, Y, Z, Q, W, V, C, A, T are nine different
  single letters and cover CAT, and the round is lost after the sixth of them; C, A and
  T are never read.
\<close>

theorem covering_guesses_counterexample:
  "fst (get_random_word Easy (\<lambda>_. 2) 0) \<in> set (WORD_DATABASE Easy)
   \<and> str_upper ascii_library (word (fst (get_random_word Easy (\<lambda>_. 2) 0))) = (ustr ''CAT'')
   \<and> List.map_filter (letter_of_line ascii_library)
        [ustr ''X'', ustr ''Y'', ustr ''Z'', ustr ''Q'', ustr ''W'', ustr ''V'', ustr ''C'',
            ustr ''A'', ustr ''T''] = (ustr ''XYZQWVCAT'')
   \<and> distinct (ustr ''XYZQWVCAT'')
   \<and> set (ustr ''CAT'') \<subseteq> set (ustr ''XYZQWVCAT'')
   \<and> play_round ascii_library Easy (\<lambda>_. 2) 0 fresh_game
        [ustr ''X'', ustr ''Y'', ustr ''Z'', ustr ''Q'', ustr ''W'', ustr ''V'', ustr ''C'',
            ustr ''A'', ustr ''T'']
      = Inr (False, fresh_game\<lparr>total_attempts := 6\<rparr>, 1, [ustr ''C'', ustr ''A'',
          ustr ''T''])"
  by (simp add: round_eval letters_eval)

text \<open>
  C2 (amended): for every word of the table (its upper-case form not empty, as that of
  any word is), when the letters of the first lines \<open>p\<close> of the input cover every letter
  of the word and fewer than \<open>MAX_ATTEMPTS\<close> different letters of \<open>p\<close> are not in the
  word, the round reports success, whatever lines \<open>q\<close> follow. What counts as a letter
  is what the string methods of the interpreter say, whatever they are.
\<close>

theorem covering_guesses_win:
  "(wd \<in> set (WORD_DATABASE d) \<and> str_upper lib (word wd) \<noteq> []
      \<and> set (str_upper lib (word wd)) \<subseteq> guessed_letters lib p
      \<and> int (card (guessed_letters lib p - set (str_upper lib (word wd)))) < MAX_ATTEMPTS \<longrightarrow>
      (\<exists>v' g' rest. guess_loop lib d wd (str_upper lib (word wd)) initial_vars g (p @ q)
                       = Inr (True, v', g', rest)))
   \<and> (str_upper lib (word (fst (get_random_word d rand draws))) \<noteq> []
      \<and> set (str_upper lib (word (fst (get_random_word d rand draws))))
          \<subseteq> guessed_letters lib p
      \<and> int (card (guessed_letters lib p
                     - set (str_upper lib (word (fst (get_random_word d rand draws))))))
          < MAX_ATTEMPTS \<longrightarrow>
      (\<exists>g' rest. play_round lib d rand draws g (p @ q) = Inr (True, g', Suc draws, rest)))"
proof -
  have loop: "\<exists>v' g' rest. guess_loop lib d wd (str_upper lib (word wd)) initial_vars g (p @ q)
                       = Inr (True, v', g', rest)"
    if upper: "str_upper lib (word wd) \<noteq> []"
      and cover: "set (str_upper lib (word wd)) \<subseteq> guessed_letters lib p"
      and few: "int (card (guessed_letters lib p - set (str_upper lib (word wd))))
                  < MAX_ATTEMPTS"
    for wd
  proof -
    from upper have open_word: "\<not> set (str_upper lib (word wd)) \<subseteq> correct_letters initial_vars"
      by (simp add: initial_vars_simps)
    have "\<exists>v' g' rest. guess_loop lib d wd (str_upper lib (word wd)) initial_vars g p
                       = Inr (True, v', g', rest)"
      using cover few open_word
      by (intro guess_loop_covered) (simp_all add: initial_vars_simps)
    then obtain v' g' rest
      where "guess_loop lib d wd (str_upper lib (word wd)) initial_vars g p
               = Inr (True, v', g', rest)"
      by blast
    from guess_loop_append [OF this, of q] show ?thesis
      by blast
  qed
  have round: "\<exists>g' rest. play_round lib d rand draws g (p @ q) = Inr (True, g', Suc draws, rest)"
    if "str_upper lib (word (fst (get_random_word d rand draws))) \<noteq> []"
      and "set (str_upper lib (word (fst (get_random_word d rand draws))))
             \<subseteq> guessed_letters lib p"
      and "int (card (guessed_letters lib p
                     - set (str_upper lib (word (fst (get_random_word d rand draws))))))
          < MAX_ATTEMPTS"
    using loop [OF that] by (auto simp: play_round_Inr)
  from loop round show ?thesis
    by blast
qed

text \<open>
  CAT with one wrong letter, a line that is no letter and a repeated letter on the way.
\<close>

theorem covering_guesses_win_witness:
  "str_upper ascii_library (word (fst (get_random_word Easy (\<lambda>_. 2) 0))) = ustr ''CAT''
   \<and> guessed_letters ascii_library
        [ustr ''x'', ustr ''c'', ustr ''cat'', ustr ''a'', ustr ''c'', ustr ''t'']
       = {88, 67, 65, 84}
   \<and> play_round ascii_library Easy (\<lambda>_. 2) 0 fresh_game
        ([ustr ''x'', ustr ''c'', ustr ''cat'', ustr ''a'', ustr ''c'', ustr ''t'']
         @ [ustr ''y'', ustr ''z''])
      = Inr (True,
             fresh_game\<lparr>score := 35, words_learned := [ustr ''cat''], total_attempts := 4,
                         correct_guesses := 3\<rparr>,
             Suc 0, [ustr ''y'', ustr ''z''])"
proof -
  let ?p = "[ustr ''x'', ustr ''c'', ustr ''cat'', ustr ''a'', ustr ''c'', ustr ''t'']"
  have upper: "str_upper ascii_library (word (fst (get_random_word Easy (\<lambda>_. 2) 0)))
      = ustr ''CAT''"
    by (simp add: get_random_word_def WORD_DATABASE_def letters_eval)
  have letters: "guessed_letters ascii_library ?p = {88, 67, 65, 84}"
    by (auto simp: letters_eval)
  have ne: "str_upper ascii_library (word (fst (get_random_word Easy (\<lambda>_. 2) 0))) \<noteq> []"
    by (simp add: upper ustr_def)
  have cover: "set (str_upper ascii_library (word (fst (get_random_word Easy (\<lambda>_. 2) 0))))
      \<subseteq> guessed_letters ascii_library ?p"
    by (simp add: upper letters) (simp add: ustr_def)
  have few: "int (card (guessed_letters ascii_library ?p
                  - set (str_upper ascii_library
                           (word (fst (get_random_word Easy (\<lambda>_. 2) 0))))))
       < MAX_ATTEMPTS"
    by (simp add: upper letters) (simp add: ustr_def MAX_ATTEMPTS_def insert_Diff_if)
  have play: "play_round ascii_library Easy (\<lambda>_. 2) 0 fresh_game (?p @ [ustr ''y'',
      ustr ''z''])
      = Inr (True,
             fresh_game\<lparr>score := 35, words_learned := [ustr ''cat''], total_attempts := 4,
                         correct_guesses := 3\<rparr>,
             Suc 0, [ustr ''y'', ustr ''z''])"
    by (simp add: round_eval)
  from covering_guesses_win [THEN conjunct2, rule_format, OF conjI [OF ne conjI [OF cover few]],
        of fresh_game "[ustr ''y'', ustr ''z'']"]
  have "\<exists>g' rest. play_round ascii_library Easy (\<lambda>_. 2) 0 fresh_game
        (?p @ [ustr ''y'', ustr ''z'']) = Inr (True, g', Suc 0, rest)" .
  with upper letters play show ?thesis
    by simp
qed

section \<open>Claims about one game\<close>

lemma rounds_list: "[0..<ROUNDS_PER_GAME] = [0, 1, 2, 3, 4, 5, 6, 7, 8, 9]"
  by (simp add: ROUNDS_PER_GAME_def upt_rec)

lemma guess_loop_finite:
  assumes "guess_loop lib d wd w v g inp = Inr (won, v', g', rest)"
  shows "finite (correct_letters v) \<and> finite (wrong_letters v) \<longrightarrow>
         finite (correct_letters v') \<and> finite (wrong_letters v')"
  using guess_loop_stats [OF assms] by blast

text \<open>The word that the round at draw number \<open>k\<close> is played on.\<close>

lemma get_random_word_eq:
  "get_random_word d rand k
     = (WORD_DATABASE d ! (rand k mod length (WORD_DATABASE d)), Suc k)"
  by (simp add: get_random_word_def Let_def)

lemma play_round_effect:
  assumes "play_round lib d rand draws g inp = Inr (won, g', draws', rest)"
  shows "draws' = Suc draws
     \<and> words_learned g'
         = (if won
            then words_learned g @ [word (WORD_DATABASE d ! (rand draws mod length (WORD_DATABASE d)))]
            else words_learned g)
     \<and> total_attempts g < total_attempts g'
     \<and> correct_guesses g \<le> correct_guesses g'
     \<and> correct_guesses g' - correct_guesses g \<le> total_attempts g' - total_attempts g
     \<and> (\<not> won \<longrightarrow> total_attempts g + MAX_ATTEMPTS \<le> total_attempts g')
     \<and> high_scores g' = high_scores g \<and> round_no g' = round_no g
     \<and> start_time g' = start_time g"
proof -
  let ?wd = "WORD_DATABASE d ! (rand draws mod length (WORD_DATABASE d))"
  let ?w = "str_upper lib (word ?wd)"
  from assms obtain v' where run: "guess_loop lib d ?wd ?w initial_vars g inp = Inr (won, v', g', rest)"
    and draws: "draws' = Suc draws"
    by (auto simp: play_round_Inr get_random_word_eq)
  from guess_loop_stats [OF run]
  have fin: "finite (correct_letters v')" "finite (wrong_letters v')"
    and total: "total_attempts g' = total_attempts g + int (card (correct_letters v'))
                  + int (card (wrong_letters v'))"
    and correct: "correct_guesses g' = correct_guesses g + int (card (correct_letters v'))"
    by (simp_all add: initial_vars_simps)
  from guess_loop_wrong_count [OF run]
  have att: "attempts_left v' + int (card (wrong_letters v')) = MAX_ATTEMPTS"
    by (simp add: initial_vars_simps)
  from guess_loop_attempts [OF run] have lost: "\<not> won \<longrightarrow> attempts_left v' = 0"
    by (simp add: initial_vars_simps MAX_ATTEMPTS_def)
  have some: "0 < card (correct_letters v') + card (wrong_letters v')"
  proof (cases won)
    case True
    with guess_loop_score [OF run] have "correct_letters v' \<noteq> {}"
      by simp
    with fin have "0 < card (correct_letters v')"
      by (simp add: card_gt_0_iff)
    then show ?thesis
      by simp
  next
    case False
    with lost att have "int (card (wrong_letters v')) = 6"
      by (simp add: MAX_ATTEMPTS_def)
    then show ?thesis
      by linarith
  qed
  from guess_loop_score [OF run]
  have words: "words_learned g' = (if won then words_learned g @ [word ?wd] else words_learned g)"
    by (cases won) simp_all
  from draws total correct att lost some words guess_loop_frame [OF run] show ?thesis
    by auto
qed

lemma rounds_loop_effect:
  "rounds_loop lib d rand rs draws g inp = Inr (g', draws', rest) \<Longrightarrow>
     draws' = draws + length rs
     \<and> (\<exists>ws. words_learned g' = words_learned g @ ws
           \<and> subseq ws (map (\<lambda>k. word (WORD_DATABASE d
                                 ! (rand (draws + k) mod length (WORD_DATABASE d))))
                          [0..<length rs]))
     \<and> total_attempts g + int (length rs) \<le> total_attempts g'
     \<and> correct_guesses g \<le> correct_guesses g'
     \<and> correct_guesses g' - correct_guesses g \<le> total_attempts g' - total_attempts g
     \<and> high_scores g' = high_scores g \<and> start_time g' = start_time g
     \<and> round_no g' = (if rs = [] then round_no g else last rs)"
proof (induction rs arbitrary: draws g inp)
  case Nil
  then show ?case by simp
next
  case (Cons r rs)
  let ?W = "\<lambda>k. word (WORD_DATABASE d ! (rand k mod length (WORD_DATABASE d)))"
  from Cons.prems obtain won g1 draws1 rest1
    where round: "play_round lib d rand draws (g\<lparr>round_no := r\<rparr>) inp
                    = Inr (won, g1, draws1, rest1)"
    by (auto split: sum.splits)
  from Cons.prems round obtain rest2
    where tail: "rounds_loop lib d rand rs draws1 g1 rest2 = Inr (g', draws', rest)"
    by (auto split: if_splits list.splits)
  note r = play_round_effect [OF round]
  note t = Cons.IH [OF tail]
  from r have draws1: "draws1 = Suc draws"
    by simp
  from t obtain ws where ws: "words_learned g' = words_learned g1 @ ws"
    and sub: "subseq ws (map (\<lambda>k. ?W (draws1 + k)) [0..<length rs])"
    by blast
  have split: "map (\<lambda>k. ?W (draws + k)) [0..<length (r # rs)]
      = ?W draws # map (\<lambda>k. ?W (draws1 + k)) [0..<length rs]"
    by (simp add: draws1 upt_conv_Cons map_Suc_upt [symmetric] del: upt_Suc)
  have words: "\<exists>ws'. words_learned g' = words_learned g @ ws'
      \<and> subseq ws' (map (\<lambda>k. ?W (draws + k)) [0..<length (r # rs)])"
  proof (cases won)
    case True
    with r ws have "words_learned g' = words_learned g @ (?W draws # ws)"
      by simp
    moreover from sub have "subseq (?W draws # ws)
        (?W draws # map (\<lambda>k. ?W (draws1 + k)) [0..<length rs])"
      by simp
    ultimately show ?thesis
      unfolding split by blast
  next
    case False
    with r ws have "words_learned g' = words_learned g @ ws"
      by simp
    moreover from sub have "subseq ws
        (?W draws # map (\<lambda>k. ?W (draws1 + k)) [0..<length rs])"
      by (rule list_emb_Cons)
    ultimately show ?thesis
      unfolding split by blast
  qed
  from r t words show ?case
    by (auto split: if_splits)
qed

lemma add_high_score_fields:
  "add_high_score lib name sc d now g st = (Inr g', st') \<Longrightarrow>
     score g' = score g \<and> round_no g' = round_no g \<and> words_learned g' = words_learned g
     \<and> start_time g' = start_time g \<and> total_attempts g' = total_attempts g
     \<and> correct_guesses g' = correct_guesses g"
  by (auto simp: add_high_score_def Let_def split: json.splits sum.splits prod.splits
        option.splits)

text \<open>
  C8: a game that comes to its end has drawn exactly \<open>ROUNDS_PER_GAME\<close> = 10 words, one
  in each round, and its round counter stands at 9; the words learned are, in order,
  among the ten words of the chosen difficulty that the random source picks at the
  draws of the game. A round is played on the word picked at its own draw. Every round,
  won or lost, takes that draw and adds its guesses to \<open>total_attempts\<close> (a lost round
  at least \<open>MAX_ATTEMPTS\<close> of them), and only a round that is won appends its word;
  after a round that is not the last one, whatever its outcome, the loop reads one line
  and goes on with the rounds that are left. At the end at least 10 guesses were
  counted, the correct ones among them, and at most 10 words were learned.
\<close>

theorem play_game_rounds:
  "(play_game lib now rand draws g st inp = (Inr (g', draws', rest), st') \<longrightarrow>
      draws' = draws + ROUNDS_PER_GAME \<and> ROUNDS_PER_GAME = 10
      \<and> round_no g' = ROUNDS_PER_GAME - 1
      \<and> (\<exists>d inp1. get_difficulty lib inp = Inr (d, inp1)
            \<and> subseq (words_learned g')
                 (map (\<lambda>k. word (WORD_DATABASE d
                                ! (rand (draws + k) mod length (WORD_DATABASE d))))
                    [0..<ROUNDS_PER_GAME]))
      \<and> length (words_learned g') \<le> ROUNDS_PER_GAME
      \<and> int ROUNDS_PER_GAME \<le> total_attempts g'
      \<and> 0 \<le> correct_guesses g' \<and> correct_guesses g' \<le> total_attempts g')
   \<and> (play_round lib d rand draws g inp = Inr (won, g1, draws1, rest1) \<longrightarrow>
      draws1 = Suc draws
      \<and> (\<exists>v1. guess_loop lib d
                 (WORD_DATABASE d ! (rand draws mod length (WORD_DATABASE d)))
                 (str_upper lib
                    (word (WORD_DATABASE d ! (rand draws mod length (WORD_DATABASE d)))))
                 initial_vars g inp
               = Inr (won, v1, g1, rest1))
      \<and> words_learned g1
          = (if won
             then words_learned g
                    @ [word (WORD_DATABASE d ! (rand draws mod length (WORD_DATABASE d)))]
             else words_learned g)
      \<and> total_attempts g < total_attempts g1
      \<and> correct_guesses g \<le> correct_guesses g1
      \<and> (\<not> won \<longrightarrow> total_attempts g + MAX_ATTEMPTS \<le> total_attempts g1))
   \<and> (play_round lib d rand draws (g\<lparr>round_no := r\<rparr>) inp = Inr (won, g1, draws1, line # rest1)
      \<and> r < ROUNDS_PER_GAME - 1 \<longrightarrow>
      rounds_loop lib d rand (r # rs) draws g inp = rounds_loop lib d rand rs draws1 g1 rest1)"
proof -
  have a: "draws' = draws + ROUNDS_PER_GAME \<and> ROUNDS_PER_GAME = 10
      \<and> round_no g' = ROUNDS_PER_GAME - 1
      \<and> (\<exists>d inp1. get_difficulty lib inp = Inr (d, inp1)
            \<and> subseq (words_learned g')
                 (map (\<lambda>k. word (WORD_DATABASE d
                                ! (rand (draws + k) mod length (WORD_DATABASE d))))
                    [0..<ROUNDS_PER_GAME]))
      \<and> length (words_learned g') \<le> ROUNDS_PER_GAME
      \<and> int ROUNDS_PER_GAME \<le> total_attempts g'
      \<and> 0 \<le> correct_guesses g' \<and> correct_guesses g' \<le> total_attempts g'"
    if game: "play_game lib now rand draws g st inp = (Inr (g', draws', rest), st')"
  proof -
    let ?g0 = "g\<lparr>score := 0, round_no := 0, words_learned := [], start_time := Some now,
                  total_attempts := 0, correct_guesses := 0\<rparr>"
    from game have "\<exists>difficulty inp1 inp2 g1 inp3.
        get_difficulty lib inp = Inr (difficulty, inp1)
        \<and> rounds_loop lib difficulty rand [0..<ROUNDS_PER_GAME] draws ?g0 inp2
            = Inr (g1, draws', inp3)
        \<and> (g' = g1 \<or> (\<exists>name. add_high_score lib name (score g1) difficulty now g1 st
                                   = (Inr g', st')))"
      by (auto simp: play_game_def Let_def
               split: sum.splits list.splits if_splits prod.splits; blast)
    then obtain difficulty inp1 inp2 g1 inp3
      where diff: "get_difficulty lib inp = Inr (difficulty, inp1)"
        and loop: "rounds_loop lib difficulty rand [0..<ROUNDS_PER_GAME] draws ?g0 inp2
                     = Inr (g1, draws', inp3)"
        and final: "g' = g1 \<or> (\<exists>name. add_high_score lib name (score g1) difficulty now g1 st
                                   = (Inr g', st'))"
      by blast
    from final have same: "round_no g' = round_no g1 \<and> total_attempts g' = total_attempts g1
        \<and> correct_guesses g' = correct_guesses g1 \<and> words_learned g' = words_learned g1"
      by (auto dest: add_high_score_fields)
    note e = rounds_loop_effect [OF loop]
    from e same have words: "subseq (words_learned g')
        (map (\<lambda>k. word (WORD_DATABASE difficulty
                       ! (rand (draws + k) mod length (WORD_DATABASE difficulty))))
           [0..<ROUNDS_PER_GAME])"
      by auto
    from words have "length (words_learned g') \<le> ROUNDS_PER_GAME"
      using list_emb_length by fastforce
    with e same diff words show ?thesis
      by (auto simp: ROUNDS_PER_GAME_def)
  qed
  have b: "draws1 = Suc draws
      \<and> (\<exists>v1. guess_loop lib d
                 (WORD_DATABASE d ! (rand draws mod length (WORD_DATABASE d)))
                 (str_upper lib
                    (word (WORD_DATABASE d ! (rand draws mod length (WORD_DATABASE d)))))
                 initial_vars g inp
               = Inr (won, v1, g1, rest1))
      \<and> words_learned g1
          = (if won
             then words_learned g
                    @ [word (WORD_DATABASE d ! (rand draws mod length (WORD_DATABASE d)))]
             else words_learned g)
      \<and> total_attempts g < total_attempts g1
      \<and> correct_guesses g \<le> correct_guesses g1
      \<and> (\<not> won \<longrightarrow> total_attempts g + MAX_ATTEMPTS \<le> total_attempts g1)"
    if round: "play_round lib d rand draws g inp = Inr (won, g1, draws1, rest1)"
  proof -
    from round have "\<exists>v1. guess_loop lib d
                 (WORD_DATABASE d ! (rand draws mod length (WORD_DATABASE d)))
                 (str_upper lib
                    (word (WORD_DATABASE d ! (rand draws mod length (WORD_DATABASE d)))))
                 initial_vars g inp
               = Inr (won, v1, g1, rest1)"
      by (auto simp: play_round_Inr get_random_word_eq)
    with play_round_effect [OF round] show ?thesis
      by blast
  qed
  have c: "rounds_loop lib d rand (r # rs) draws g inp = rounds_loop lib d rand rs draws1 g1 rest1"
    if "play_round lib d rand draws (g\<lparr>round_no := r\<rparr>) inp
          = Inr (won, g1, draws1, line # rest1)"
      and "r < ROUNDS_PER_GAME - 1"
    using that by simp
  from a b c show ?thesis
    by blast
qed

text \<open>
  A game on easy in which the draws pick the ten words in turn: the fourth round, on
  DOG, is lost, the nine others are won with all attempts left.
\<close>

theorem play_game_rounds_witness:
  "play_game ascii_library (ustr ''2024-01-01 10:00'') id 0 fresh_game
      \<lparr>high_score_file = Missing, writing = WriteOk\<rparr>
      (map ustr
        [''9'', ''1'', ''Ann'',
         ''a'', ''p'', ''l'', ''e'', '''',
         ''b'', ''o'', ''k'', '''',
         ''c'', ''a'', ''t'', '''',
         ''x'', ''y'', ''z'', ''q'', ''w'', ''v'', '''',
         ''h'', ''o'', ''u'', ''s'', ''e'', '''',
         ''w'', ''a'', ''t'', ''e'', ''r'', '''',
         ''f'', ''r'', ''i'', ''e'', ''n'', ''d'', '''',
         ''s'', ''c'', ''h'', ''o'', ''l'', '''',
         ''h'', ''a'', ''p'', ''y'', '''',
         ''f'', ''a'', ''m'', ''i'', ''l'', ''y'',
         '''', ''4''])
    = (Inr (\<lparr>score = 360, round_no = 9,
              words_learned = map ustr [''apple'', ''book'', ''cat'', ''house'', ''water'',
                                        ''friend'', ''school'', ''happy'', ''family''],
              start_time = Some (ustr ''2024-01-01 10:00''), total_attempts = 47,
              correct_guesses = 41,
              high_scores = JList [entry_json
                \<lparr>entry_name = ustr ''Ann'', entry_score = 360, entry_difficulty = Easy,
                  entry_date = ustr ''2024-01-01 10:00''\<rparr>]\<rparr>,
            10, [ustr ''4'']),
       \<lparr>high_score_file = Holds (Json (JList [entry_json
            \<lparr>entry_name = ustr ''Ann'', entry_score = 360, entry_difficulty = Easy,
              entry_date = ustr ''2024-01-01 10:00''\<rparr>])), writing = WriteOk\<rparr>)"
proof -
  have ten: "[0..<10] = [0, 1, 2, 3, 4, 5, 6, 7, 8, 9::nat]"
    by (simp add: upt_rec)
  have game: "play_game ascii_library (ustr ''2024-01-01 10:00'') id 0 fresh_game
      \<lparr>high_score_file = Missing, writing = WriteOk\<rparr>
      (map ustr
        [''9'', ''1'', ''Ann'',
         ''a'', ''p'', ''l'', ''e'', '''',
         ''b'', ''o'', ''k'', '''',
         ''c'', ''a'', ''t'', '''',
         ''x'', ''y'', ''z'', ''q'', ''w'', ''v'', '''',
         ''h'', ''o'', ''u'', ''s'', ''e'', '''',
         ''w'', ''a'', ''t'', ''e'', ''r'', '''',
         ''f'', ''r'', ''i'', ''e'', ''n'', ''d'', '''',
         ''s'', ''c'', ''h'', ''o'', ''l'', '''',
         ''h'', ''a'', ''p'', ''y'', '''',
         ''f'', ''a'', ''m'', ''i'', ''l'', ''y'',
         '''', ''4''])
    = (Inr (\<lparr>score = 360, round_no = 9,
              words_learned = map ustr [''apple'', ''book'', ''cat'', ''house'', ''water'',
                                        ''friend'', ''school'', ''happy'', ''family''],
              start_time = Some (ustr ''2024-01-01 10:00''), total_attempts = 47,
              correct_guesses = 41,
              high_scores = JList [entry_json
                \<lparr>entry_name = ustr ''Ann'', entry_score = 360, entry_difficulty = Easy,
                  entry_date = ustr ''2024-01-01 10:00''\<rparr>]\<rparr>,
            10, [ustr ''4'']),
       \<lparr>high_score_file = Holds (Json (JList [entry_json
            \<lparr>entry_name = ustr ''Ann'', entry_score = 360, entry_difficulty = Easy,
              entry_date = ustr ''2024-01-01 10:00''\<rparr>])), writing = WriteOk\<rparr>)"
    by (simp add: play_game_def ten round_eval ROUNDS_PER_GAME_def ledger_eval)
  from play_game_rounds [THEN conjunct1, rule_format, OF game]
  have "(10::nat) = 0 + ROUNDS_PER_GAME"
    by simp
  with game show ?thesis
    by simp
qed

end
